theory Spec2Isabelle
  imports Complex_Main "HOL-Library.AList" "HOL-Library.Multiset"
begin

section \<open>The Poisson calculator of src/models/poisson\_calculator.py\<close>

text \<open>
  The engine is the class \<open>PoissonCalculator\<close>. Its fields hold Python floats or
  \<open>None\<close>; a float is modelled as a \<open>real\<close> (the rounding of IEEE doubles is modelled
  separately, for the scoreline matrix and the sums over it, in the last subsection of
  the definitions), a field that may be \<open>None\<close> as a \<open>real option\<close>. The totals given to the
  \<open>set_team_from_totals\<close> methods are Python ints (\<open>int\<close>). Methods that assign to
  \<open>self\<close> take the engine and return the engine after the call, together with the
  exception that ended the call, if any. The source's leading underscores of private
  methods are dropped from the names.
\<close>

subsection \<open>Exceptions and special float values\<close>

datatype py_error = ValueError string | ZeroDivisionError | TypeError

text \<open>Odds can be \<open>float('inf')\<close>; multiplying an infinity can give the other special values.\<close>

datatype pyfloat = Fin real | PosInf | NegInf | NaN

subsection \<open>The engine state (\<open>__init__\<close>)\<close>

record engine =
  home_avg_goals_for :: "real option"
  home_avg_goals_against :: "real option"
  away_avg_goals_for :: "real option"
  away_avg_goals_against :: "real option"
  league_avg_goals :: "real option"
  using_detailed_averages :: bool
  league_home_goals_for :: "real option"
  league_home_goals_against :: "real option"
  league_away_goals_for :: "real option"
  league_away_goals_against :: "real option"
  home_attack_strength :: "real option"
  home_defense_strength :: "real option"
  away_attack_strength :: "real option"
  away_defense_strength :: "real option"

definition init :: engine where
  "init = \<lparr>home_avg_goals_for = None, home_avg_goals_against = None,
            away_avg_goals_for = None, away_avg_goals_against = None,
            league_avg_goals = None,
            using_detailed_averages = False,
            league_home_goals_for = None, league_home_goals_against = None,
            league_away_goals_for = None, league_away_goals_against = None,
            home_attack_strength = None, home_defense_strength = None,
            away_attack_strength = None, away_defense_strength = None\<rparr>"

subsection \<open>Configuration\<close>

definition set_team_averages ::
  "engine \<Rightarrow> real \<Rightarrow> real \<Rightarrow> real \<Rightarrow> real \<Rightarrow> real \<Rightarrow> engine" where
  "set_team_averages e home_goals_for home_goals_against away_goals_for away_goals_against
       league_avg =
     e\<lparr>home_avg_goals_for := Some home_goals_for,
       home_avg_goals_against := Some home_goals_against,
       away_avg_goals_for := Some away_goals_for,
       away_avg_goals_against := Some away_goals_against,
       league_avg_goals := Some league_avg,
       using_detailed_averages := False\<rparr>"

definition set_team_averages_detailed ::
  "engine \<Rightarrow> real \<Rightarrow> real \<Rightarrow> real \<Rightarrow> real \<Rightarrow> real \<Rightarrow> real \<Rightarrow> engine" where
  "set_team_averages_detailed e home_goals_for home_goals_against away_goals_for
       away_goals_against league_home_for league_away_for =
     e\<lparr>home_avg_goals_for := Some home_goals_for,
       home_avg_goals_against := Some home_goals_against,
       away_avg_goals_for := Some away_goals_for,
       away_avg_goals_against := Some away_goals_against,
       league_home_goals_for := Some league_home_for,
       league_away_goals_for := Some league_away_for,
       league_home_goals_against := Some league_away_for,
       league_away_goals_against := Some league_home_for,
       using_detailed_averages := True\<rparr>"

text \<open>
  The two methods that take totals divide before each assignment: \<open>a / b\<close> on Python
  ints is true division and raises \<open>ZeroDivisionError\<close> when \<open>b\<close> is 0. The
  assignments made before the raise stay.
\<close>

definition set_team_from_totals_detailed ::
  "engine \<Rightarrow> int \<Rightarrow> int \<Rightarrow> int \<Rightarrow> int \<Rightarrow> int \<Rightarrow> int \<Rightarrow> real \<Rightarrow> real
     \<Rightarrow> py_error option \<times> engine" where
  "set_team_from_totals_detailed e home_games home_goals_scored home_goals_conceded
       away_games away_goals_scored away_goals_conceded league_home_for league_away_for =
     (if home_games = 0 then (Some ZeroDivisionError, e) else
      let e1 = e\<lparr>home_avg_goals_for := Some (real_of_int home_goals_scored / real_of_int home_games)\<rparr>;
          e2 = e1\<lparr>home_avg_goals_against :=
                    Some (real_of_int home_goals_conceded / real_of_int home_games)\<rparr>
      in if away_games = 0 then (Some ZeroDivisionError, e2) else
      let e3 = e2\<lparr>away_avg_goals_for := Some (real_of_int away_goals_scored / real_of_int away_games)\<rparr>;
          e4 = e3\<lparr>away_avg_goals_against :=
                    Some (real_of_int away_goals_conceded / real_of_int away_games)\<rparr>
      in (None,
          e4\<lparr>league_home_goals_for := Some league_home_for,
             league_away_goals_for := Some league_away_for,
             league_home_goals_against := Some league_away_for,
             league_away_goals_against := Some league_home_for,
             using_detailed_averages := True\<rparr>))"

definition set_team_from_totals ::
  "engine \<Rightarrow> int \<Rightarrow> int \<Rightarrow> int \<Rightarrow> int \<Rightarrow> int \<Rightarrow> int \<Rightarrow> real \<Rightarrow> py_error option \<times> engine" where
  "set_team_from_totals e home_games home_goals_scored home_goals_conceded
       away_games away_goals_scored away_goals_conceded league_avg =
     (if home_games = 0 then (Some ZeroDivisionError, e) else
      let e1 = e\<lparr>home_avg_goals_for := Some (real_of_int home_goals_scored / real_of_int home_games)\<rparr>;
          e2 = e1\<lparr>home_avg_goals_against :=
                    Some (real_of_int home_goals_conceded / real_of_int home_games)\<rparr>
      in if away_games = 0 then (Some ZeroDivisionError, e2) else
      let e3 = e2\<lparr>away_avg_goals_for := Some (real_of_int away_goals_scored / real_of_int away_games)\<rparr>;
          e4 = e3\<lparr>away_avg_goals_against :=
                    Some (real_of_int away_goals_conceded / real_of_int away_games)\<rparr>
      in (None, e4\<lparr>league_avg_goals := Some league_avg, using_detailed_averages := False\<rparr>))"

subsection \<open>Strengths and goal expectancy\<close>

text \<open>
  \<open>all([...])\<close> tests the truth value of each element: \<open>None\<close> is false, and so is the
  float \<open>0.0\<close>.
\<close>

fun truthy :: "real option \<Rightarrow> bool" where
  "truthy None = False"
| "truthy (Some x) = (x \<noteq> 0)"

definition py_all :: "real option list \<Rightarrow> bool" where
  "py_all xs = list_all truthy xs"

text \<open>
  After the validation every field read below is a float and every divisor is non-zero,
  so the divisions cannot raise and \<open>the\<close> is applied to \<open>Some\<close> only.
\<close>

definition calculate_strengths :: "engine \<Rightarrow> py_error option \<times> engine" where
  "calculate_strengths e =
     (if using_detailed_averages e then
        (if \<not> py_all [home_avg_goals_for e, home_avg_goals_against e,
                       away_avg_goals_for e, away_avg_goals_against e,
                       league_home_goals_for e, league_home_goals_against e,
                       league_away_goals_for e, league_away_goals_against e]
         then (Some (ValueError
                 ''Team and detailed league averages must be set before calculating strengths''), e)
         else (None,
           e\<lparr>home_attack_strength :=
                 Some (the (home_avg_goals_for e) / the (league_home_goals_for e)),
             home_defense_strength :=
                 Some (the (home_avg_goals_against e) / the (league_away_goals_for e)),
             away_attack_strength :=
                 Some (the (away_avg_goals_for e) / the (league_away_goals_for e)),
             away_defense_strength :=
                 Some (the (away_avg_goals_against e) / the (league_home_goals_for e))\<rparr>))
      else
        (if \<not> py_all [home_avg_goals_for e, home_avg_goals_against e,
                       away_avg_goals_for e, away_avg_goals_against e,
                       league_avg_goals e]
         then (Some (ValueError ''Team averages must be set before calculating strengths''), e)
         else (None,
           e\<lparr>home_attack_strength := Some (the (home_avg_goals_for e) / the (league_avg_goals e)),
             home_defense_strength :=
                 Some (the (home_avg_goals_against e) / the (league_avg_goals e)),
             away_attack_strength := Some (the (away_avg_goals_for e) / the (league_avg_goals e)),
             away_defense_strength :=
                 Some (the (away_avg_goals_against e) / the (league_avg_goals e))\<rparr>)))"

text \<open>
  The league fields are not validated here: a float times \<open>None\<close> raises \<open>TypeError\<close>.
\<close>

definition calculate_goal_expectancy :: "engine \<Rightarrow> py_error + real \<times> real" where
  "calculate_goal_expectancy e =
     (if \<not> py_all [home_attack_strength e, home_defense_strength e,
                    away_attack_strength e, away_defense_strength e]
      then Inl (ValueError ''Strengths must be calculated before goal expectancy'')
      else if using_detailed_averages e then
        (case league_home_goals_for e of
           None \<Rightarrow> Inl TypeError
         | Some lh \<Rightarrow>
            (case league_away_goals_for e of
               None \<Rightarrow> Inl TypeError
             | Some la \<Rightarrow>
                 Inr (the (home_attack_strength e) * the (away_defense_strength e) * lh,
                      the (away_attack_strength e) * the (home_defense_strength e) * la)))
      else
        (case league_avg_goals e of
           None \<Rightarrow> Inl TypeError
         | Some l \<Rightarrow>
             Inr (the (home_attack_strength e) * the (away_defense_strength e) * l,
                  the (away_attack_strength e) * the (home_defense_strength e) * l)))"

subsection \<open>The scoreline matrix\<close>

definition poisson_pmf :: "nat \<Rightarrow> real \<Rightarrow> real" where
  "poisson_pmf k lam = (lam ^ k) * exp (- lam) / real (fact k :: nat)"

text \<open>
  A two-dimensional numpy array is a list of rows of one length. \<open>np.zeros\<close> makes
  it, and \<open>prob_matrix[i][j] = v\<close> overwrites one cell; the loops only write cells inside
  the array.
\<close>

type_synonym matrix = "real list list"

definition zeros :: "nat \<Rightarrow> nat \<Rightarrow> matrix" where
  "zeros r c = replicate r (replicate c 0)"

definition set_cell :: "matrix \<Rightarrow> nat \<Rightarrow> nat \<Rightarrow> real \<Rightarrow> matrix" where
  "set_cell m i j v = m[i := (m ! i)[j := v]]"

definition generate_scoreline_probabilities :: "real \<Rightarrow> real \<Rightarrow> nat \<Rightarrow> matrix" where
  "generate_scoreline_probabilities home_expectancy away_expectancy max_goals =
     (let goals_range = [0..<max_goals + 1];
          prob_matrix = zeros (max_goals + 1) (max_goals + 1)
      in fold (\<lambda>home_goals m.
                 fold (\<lambda>away_goals m'.
                         let home_prob = poisson_pmf home_goals home_expectancy;
                             away_prob = poisson_pmf away_goals away_expectancy
                         in set_cell m' home_goals away_goals (home_prob * away_prob))
                      goals_range m)
              goals_range prob_matrix)"

text \<open>The default value of the parameter \<open>max_goals\<close>.\<close>

definition max_goals_default :: nat where
  "max_goals_default = 8"

subsection \<open>Over/Under markets\<close>

record market =
  under_probability :: real
  over_probability :: real
  under_odds :: pyfloat
  over_odds :: pyfloat

definition thresholds :: "real list" where
  "thresholds = [1/2, 3/2, 5/2, 7/2]"

text \<open>
  \<open>f"{threshold}"\<close> prints the shortest decimal that reads back as the float; it is
  tabulated for the four thresholds, the only floats the source prints this way.
\<close>

definition float_str :: "real \<Rightarrow> string" where
  "float_str t =
     (if t = 1/2 then ''0.5'' else if t = 3/2 then ''1.5''
      else if t = 5/2 then ''2.5'' else if t = 7/2 then ''3.5'' else ''?'')"

text \<open>
  The two inner loops of \<open>_calculate_over_under_probabilities\<close>: the value of
  \<open>under_prob\<close> once both have run for one threshold.
\<close>

definition under_prob_loop :: "matrix \<Rightarrow> real \<Rightarrow> real" where
  "under_prob_loop prob_matrix threshold =
     fold (\<lambda>home_goals under_prob.
             fold (\<lambda>away_goals under_prob'.
                     let total_goals = home_goals + away_goals
                     in if real total_goals \<le> threshold
                        then under_prob' + prob_matrix ! home_goals ! away_goals
                        else under_prob')
                  [0..<length (prob_matrix ! 0)] under_prob)
          [0..<length prob_matrix] 0"

text \<open>
  The result is a dict, which keeps its keys in insertion order: an association list
  with \<open>AList.update\<close>.
\<close>

definition calculate_over_under_probabilities :: "matrix \<Rightarrow> (string \<times> market) list" where
  "calculate_over_under_probabilities prob_matrix =
     fold (\<lambda>threshold results.
             let under_prob = under_prob_loop prob_matrix threshold;
                 over_prob = 1 - under_prob
             in AList.update (''Under '' @ float_str threshold)
                  \<lparr>under_probability = under_prob,
                   over_probability = over_prob,
                   under_odds = (if under_prob > 0 then Fin (1 / under_prob) else PosInf),
                   over_odds = (if over_prob > 0 then Fin (1 / over_prob) else PosInf)\<rparr>
                  results)
          thresholds []"

text \<open>
  Multiplying a float that may be infinite by a finite one. \<open>_apply_margin\<close> and
  \<open>generate_market_analysis\<close> take \<open>margin_percent\<close> with the default 3; the model
  takes it as an argument.
\<close>

fun pyfloat_times :: "pyfloat \<Rightarrow> real \<Rightarrow> pyfloat" where
  "pyfloat_times (Fin x) y = Fin (x * y)"
| "pyfloat_times PosInf y = (if y > 0 then PosInf else if y < 0 then NegInf else NaN)"
| "pyfloat_times NegInf y = (if y > 0 then NegInf else if y < 0 then PosInf else NaN)"
| "pyfloat_times NaN y = NaN"

definition apply_margin :: "pyfloat \<Rightarrow> real \<Rightarrow> pyfloat" where
  "apply_margin odds margin_percent =
     (let margin_multiplier = 1 + (margin_percent / 100)
      in pyfloat_times odds margin_multiplier)"

subsection \<open>Formatting with two decimals\<close>

text \<open>
  \<open>f"{x:.2f}"\<close> rounds to the nearest hundredth, a tie to the even one, and prints the
  sign, the integer part, a point and two digits; \<open>f"{x:.2%}"\<close> does the same with
  \<open>100 * x\<close> and appends a percent sign.
\<close>

definition round_half_even :: "real \<Rightarrow> int" where
  "round_half_even x =
     (let f = \<lfloor>x\<rfloor>; d = x - of_int f
      in if d < 1/2 then f else if d > 1/2 then f + 1 else if even f then f else f + 1)"

definition digit_char :: "nat \<Rightarrow> char" where
  "digit_char d = ''0123456789'' ! d"

function nat_digits :: "nat \<Rightarrow> string" where
  "nat_digits n = (if n < 10 then [digit_char n]
                   else nat_digits (n div 10) @ [digit_char (n mod 10)])"
  by pat_completeness auto
termination
  by (relation "measure id") auto

definition format_fixed2 :: "real \<Rightarrow> string" where
  "format_fixed2 x =
     (let h = nat (round_half_even (\<bar>x\<bar> * 100))
      in (if x < 0 then ''-'' else []) @ nat_digits (h div 100) @ ''.'' @
         [digit_char (h mod 100 div 10), digit_char (h mod 10)])"

fun format_2f :: "pyfloat \<Rightarrow> string" where
  "format_2f (Fin x) = format_fixed2 x"
| "format_2f PosInf = ''inf''"
| "format_2f NegInf = ''-inf''"
| "format_2f NaN = ''nan''"

definition format_2pct :: "real \<Rightarrow> string" where
  "format_2pct x = format_fixed2 (x * 100) @ ''%''"

subsection \<open>The market table\<close>

record market_row =
  Market :: string
  Probability :: string
  Fair_Odds :: string
  Odds_Margin :: string
  Opposite_Probability :: string
  Opposite_Odds_Margin :: string

text \<open>
  The first half of \<open>generate_market_analysis\<close>, up to the assignment of
  \<open>over_under_results\<close>.
\<close>

definition over_under_results :: "engine \<Rightarrow> py_error + (string \<times> market) list" where
  "over_under_results e =
     (if \<not> py_all [home_attack_strength e, away_attack_strength e]
      then Inl (ValueError ''Strengths must be calculated before generating market analysis'')
      else case calculate_goal_expectancy e of
             Inl err \<Rightarrow> Inl err
           | Inr (home_expectancy, away_expectancy) \<Rightarrow>
               let prob_matrix = generate_scoreline_probabilities home_expectancy away_expectancy
                                   max_goals_default
               in Inr (calculate_over_under_probabilities prob_matrix))"

text \<open>The second half: one row of the data frame for each market, in the dict's order.\<close>

definition generate_market_analysis :: "engine \<Rightarrow> real \<Rightarrow> py_error + market_row list" where
  "generate_market_analysis e margin_percent =
     (case over_under_results e of
        Inl err \<Rightarrow> Inl err
      | Inr results \<Rightarrow>
          Inr (map (\<lambda>(mkt, data).
                      let under_odds_with_margin = apply_margin (under_odds data) margin_percent;
                          over_odds_with_margin = apply_margin (over_odds data) margin_percent
                      in \<lparr>Market = mkt,
                          Probability = format_2pct (under_probability data),
                          Fair_Odds = format_2f (under_odds data),
                          Odds_Margin = format_2f under_odds_with_margin,
                          Opposite_Probability = format_2pct (over_probability data),
                          Opposite_Odds_Margin = format_2f over_odds_with_margin\<rparr>)
                   results))"

text \<open>
  \<open>get_summary_info\<close>: the expected goals, their sum and the four strengths, each
  printed with two decimals, in the order of the dict literal.
\<close>

definition get_summary_info :: "engine \<Rightarrow> py_error + (string \<times> string) list" where
  "get_summary_info e =
     (if \<not> py_all [home_attack_strength e, away_attack_strength e]
      then Inl (ValueError ''Strengths must be calculated before getting summary info'')
      else case calculate_goal_expectancy e of
             Inl err \<Rightarrow> Inl err
           | Inr (home_expectancy, away_expectancy) \<Rightarrow>
               Inr [(''Home Team Expected Goals'', format_fixed2 home_expectancy),
                    (''Away Team Expected Goals'', format_fixed2 away_expectancy),
                    (''Total Expected Goals'', format_fixed2 (home_expectancy + away_expectancy)),
                    (''Home Attack Strength'', format_fixed2 (the (home_attack_strength e))),
                    (''Home Defense Strength'', format_fixed2 (the (home_defense_strength e))),
                    (''Away Attack Strength'', format_fixed2 (the (away_attack_strength e))),
                    (''Away Defense Strength'', format_fixed2 (the (away_defense_strength e)))])"

subsection \<open>The scoreline matrix and the sums in double precision\<close>

text \<open>
  The code computes with IEEE doubles, and the result of a sum of doubles depends on the
  order of the additions. To follow that order, the functions from the Poisson
  probability to the accumulation of \<open>under_prob\<close> are modelled a second time, with
  every operation rounded to the nearest double, a tie to the one with the even
  significand. \<open>round_double\<close> is that rounding: 53 significant bits, the smallest
  exponent that of the subnormal numbers. A result beyond the largest double, infinite in
  the code, is not modelled.
\<close>

definition round_double :: "real \<Rightarrow> real" where
  "round_double x =
     (if x = 0 then 0
      else let e = max \<lfloor>log 2 \<bar>x\<bar>\<rfloor> (- 1022);
               q = 2 powi (e - 52)
           in sgn x * real_of_int (round_half_even (\<bar>x\<bar> / q)) * q)"

text \<open>
  \<open>np.exp\<close> and the power \<open>lam ** k\<close> of the C library are not part of the repository;
  they are taken to return the double nearest to the exact value. The factorial is an
  int, converted to a double by the division.
\<close>

definition exp_double :: "real \<Rightarrow> real" where
  "exp_double x = round_double (exp x)"

definition poisson_pmf_double :: "nat \<Rightarrow> real \<Rightarrow> real" where
  "poisson_pmf_double k lam =
     round_double (round_double (round_double (lam ^ k) * exp_double (- lam))
                   / round_double (real (fact k :: nat)))"

definition generate_scoreline_probabilities_double :: "real \<Rightarrow> real \<Rightarrow> nat \<Rightarrow> matrix" where
  "generate_scoreline_probabilities_double home_expectancy away_expectancy max_goals =
     (let goals_range = [0..<max_goals + 1];
          prob_matrix = zeros (max_goals + 1) (max_goals + 1)
      in fold (\<lambda>home_goals m.
                 fold (\<lambda>away_goals m'.
                         let home_prob = poisson_pmf_double home_goals home_expectancy;
                             away_prob = poisson_pmf_double away_goals away_expectancy
                         in set_cell m' home_goals away_goals (round_double (home_prob * away_prob)))
                      goals_range m)
              goals_range prob_matrix)"

definition under_prob_loop_double :: "matrix \<Rightarrow> real \<Rightarrow> real" where
  "under_prob_loop_double prob_matrix threshold =
     fold (\<lambda>home_goals under_prob.
             fold (\<lambda>away_goals under_prob'.
                     let total_goals = home_goals + away_goals
                     in if real total_goals \<le> threshold
                        then round_double (under_prob' + prob_matrix ! home_goals ! away_goals)
                        else under_prob')
                  [0..<length (prob_matrix ! 0)] under_prob)
          [0..<length prob_matrix] 0"

text \<open>
  The values that \<open>prob\<close> takes in the two inner loops for one threshold, in the order
  in which they are added to \<open>under_prob\<close>.
\<close>

definition under_cells :: "matrix \<Rightarrow> real \<Rightarrow> real list" where
  "under_cells prob_matrix threshold =
     concat (map (\<lambda>home_goals.
                    map (\<lambda>away_goals. prob_matrix ! home_goals ! away_goals)
                      (filter (\<lambda>away_goals. real (home_goals + away_goals) \<le> threshold)
                         [0..<length (prob_matrix ! 0)]))
               [0..<length prob_matrix])"

section \<open>Auxiliary facts about the loops\<close>

subsection \<open>Filling the matrix\<close>

lemma nth_list_update_any:
  "xs[i := x] ! k = (if k = i \<and> i < length xs then x else xs ! k)"
  by (cases "i < length xs") (auto simp: list_update_beyond)

lemma fold_row_update_nth:
  "fold (\<lambda>j r. r[j := g j]) js r ! k = (if k \<in> set js \<and> k < length r then g k else r ! k)"
  by (induction js arbitrary: r) (auto simp: nth_list_update_any)

lemma fold_row_update_length:
  "length (fold (\<lambda>j r. r[j := g j]) js r) = length r"
  by (induction js arbitrary: r) auto

lemma fold_set_cell_row:
  "fold (\<lambda>j m. set_cell m i j (g j)) js m = m[i := fold (\<lambda>j r. r[j := g j]) js (m ! i)]"
proof (induction js arbitrary: m)
  case Nil
  show ?case by simp
next
  case (Cons j js)
  have "fold (\<lambda>j m. set_cell m i j (g j)) (j # js) m =
          (set_cell m i j (g j))[i := fold (\<lambda>j r. r[j := g j]) js (set_cell m i j (g j) ! i)]"
    by (simp add: Cons)
  also have "\<dots> = m[i := fold (\<lambda>j r. r[j := g j]) (j # js) (m ! i)]"
  proof (cases "i < length m")
    case True
    then show ?thesis by (simp add: set_cell_def)
  next
    case False
    then show ?thesis by (simp add: set_cell_def list_update_beyond)
  qed
  finally show ?case .
qed

lemma fold_rows_nth:
  "distinct is \<Longrightarrow>
   fold (\<lambda>i m. m[i := F i (m ! i)]) is m ! k =
     (if k \<in> set is \<and> k < length m then F k (m ! k) else m ! k)"
proof (induction "is" arbitrary: m)
  case Nil
  show ?case by simp
next
  case (Cons i "is")
  then show ?case by (auto simp: nth_list_update_any)
qed

lemma fold_rows_length:
  "length (fold (\<lambda>i m. m[i := F i (m ! i)]) is m) = length m"
  by (induction "is" arbitrary: m) auto

lemma fill_rows:
  "fold (\<lambda>i m. fold (\<lambda>j m'. set_cell m' i j (f i j)) rng m) rng m0 =
     fold (\<lambda>i m. m[i := (\<lambda>i row. fold (\<lambda>j r. r[j := f i j]) rng row) i (m ! i)]) rng m0"
  by (simp only: fold_set_cell_row)

lemma fill_length:
  "length (fold (\<lambda>i m. fold (\<lambda>j m'. set_cell m' i j (f i j)) rng m) rng m0) = length m0"
  unfolding fill_rows by (rule fold_rows_length)

lemma fill_row:
  assumes "distinct rng" and "i \<in> set rng" and "i < length m0"
  shows "fold (\<lambda>i m. fold (\<lambda>j m'. set_cell m' i j (f i j)) rng m) rng m0 ! i =
           fold (\<lambda>j r. r[j := f i j]) rng (m0 ! i)"
  unfolding fill_rows
  using fold_rows_nth [OF assms(1), of "\<lambda>i row. fold (\<lambda>j r. r[j := f i j]) rng row" m0 i] assms(2,3)
  by simp

lemma fill_nth:
  assumes "distinct rng" and "i \<in> set rng" and "j \<in> set rng"
    and "i < length m0" and "j < length (m0 ! i)"
  shows "fold (\<lambda>i m. fold (\<lambda>j m'. set_cell m' i j (f i j)) rng m) rng m0 ! i ! j = f i j"
  using assms by (simp add: fill_row fold_row_update_nth)

lemma zeros_length: "length (zeros r c) = r"
  by (simp add: zeros_def)

lemma zeros_row: "i < r \<Longrightarrow> zeros r c ! i = replicate c 0"
  by (simp add: zeros_def)

lemma generate_scoreline_probabilities_length:
  "length (generate_scoreline_probabilities h a n) = n + 1"
  unfolding generate_scoreline_probabilities_def Let_def
  by (simp only: fill_length zeros_length)

lemma generate_scoreline_probabilities_row_length:
  assumes "i \<le> n"
  shows "length (generate_scoreline_probabilities h a n ! i) = n + 1"
proof -
  have "distinct [0..<n + 1]" by simp
  moreover have "i \<in> set [0..<n + 1]"
    using assms by auto
  moreover have "i < length (zeros (n + 1) (n + 1))"
    using assms by (simp add: zeros_length)
  moreover have "zeros (n + 1) (n + 1) ! i = replicate (n + 1) 0"
    using assms by (intro zeros_row) simp
  ultimately show ?thesis
    unfolding generate_scoreline_probabilities_def Let_def
    by (simp only: fill_row fold_row_update_length length_replicate)
qed

lemma generate_scoreline_probabilities_nth:
  assumes "i \<le> n" and "j \<le> n"
  shows "generate_scoreline_probabilities h a n ! i ! j = poisson_pmf i h * poisson_pmf j a"
proof -
  have row: "zeros (n + 1) (n + 1) ! i = replicate (n + 1) 0"
    using assms by (intro zeros_row) simp
  have "distinct [0..<n + 1]" by simp
  moreover have "i \<in> set [0..<n + 1]" "j \<in> set [0..<n + 1]"
    using assms by auto
  moreover have "i < length (zeros (n + 1) (n + 1))"
    using assms by (simp add: zeros_length)
  moreover have "j < length (zeros (n + 1) (n + 1) ! i)"
    using assms unfolding row by simp
  ultimately show ?thesis
    unfolding generate_scoreline_probabilities_def Let_def
    by (rule fill_nth)
qed

subsection \<open>Summing the cells under a threshold\<close>

lemma fold_cond_add:
  "fold (\<lambda>j u. if c j then u + v j else u) js (u0::real) =
     u0 + sum_list (map (\<lambda>j. if c j then v j else 0) js)"
  by (induction js arbitrary: u0) auto

lemma fold_add:
  "fold (\<lambda>i u. u + G i) is (u0::real) = u0 + sum_list (map G is)"
  by (induction "is" arbitrary: u0) auto

lemma under_prob_loop_sum:
  "under_prob_loop m t =
     (\<Sum>i<length m. \<Sum>j<length (m ! 0). if real (i + j) \<le> t then m ! i ! j else 0)"
  by (simp add: under_prob_loop_def Let_def fold_cond_add fold_add
        interv_sum_list_conv_sum_set_nat atLeast0LessThan)

lemma calculate_over_under_probabilities_unfold:
  "calculate_over_under_probabilities m =
     map (\<lambda>t. (''Under '' @ float_str t,
               \<lparr>under_probability = under_prob_loop m t,
                over_probability = 1 - under_prob_loop m t,
                under_odds = (if under_prob_loop m t > 0 then Fin (1 / under_prob_loop m t) else PosInf),
                over_odds = (if 1 - under_prob_loop m t > 0 then Fin (1 / (1 - under_prob_loop m t))
                             else PosInf)\<rparr>))
       thresholds"
  by (simp add: calculate_over_under_probabilities_def thresholds_def float_str_def Let_def)

subsection \<open>Properties of the generated matrix and of the sums\<close>

lemma poisson_pmf_nonneg: "0 \<le> lam \<Longrightarrow> 0 \<le> poisson_pmf k lam"
  by (simp add: poisson_pmf_def)

lemma under_prob_loop_mono:
  assumes "\<And>i j. i < length m \<Longrightarrow> j < length (m ! 0) \<Longrightarrow> 0 \<le> m ! i ! j" and "t \<le> t'"
  shows "under_prob_loop m t \<le> under_prob_loop m t'"
  unfolding under_prob_loop_sum
  using assms by (intro sum_mono) auto

lemma under_prob_loop_generated:
  "under_prob_loop (generate_scoreline_probabilities h a n) t =
     (\<Sum>i<n + 1. \<Sum>j<n + 1. if real (i + j) \<le> t then poisson_pmf i h * poisson_pmf j a else 0)"
proof -
  have "length (generate_scoreline_probabilities h a n ! 0) = n + 1"
    by (rule generate_scoreline_probabilities_row_length) simp
  then show ?thesis
    unfolding under_prob_loop_sum generate_scoreline_probabilities_length
    by (intro sum.cong refl) (auto simp: generate_scoreline_probabilities_nth less_Suc_eq_le)
qed

lemma generated_under_sorted:
  assumes "0 \<le> h" and "0 \<le> a"
  shows "sorted (map (under_probability \<circ> snd)
           (calculate_over_under_probabilities (generate_scoreline_probabilities h a n)))"
proof -
  let ?m = "generate_scoreline_probabilities h a n"
  have nonneg: "0 \<le> ?m ! i ! j" if "i < length ?m" "j < length (?m ! 0)" for i j
  proof -
    have "length (?m ! 0) = n + 1"
      by (rule generate_scoreline_probabilities_row_length) simp
    with that have "i \<le> n" "j \<le> n"
      by (simp_all add: generate_scoreline_probabilities_length)
    then show ?thesis
      using assms by (simp add: generate_scoreline_probabilities_nth poisson_pmf_nonneg)
  qed
  have "under_prob_loop ?m (1/2) \<le> under_prob_loop ?m (3/2)"
    "under_prob_loop ?m (3/2) \<le> under_prob_loop ?m (5/2)"
    "under_prob_loop ?m (5/2) \<le> under_prob_loop ?m (7/2)"
    by (rule under_prob_loop_mono, erule (1) nonneg, simp)+
  then show ?thesis
    by (simp add: calculate_over_under_probabilities_unfold thresholds_def)
qed

lemma under_half_generated:
  "under_prob_loop (generate_scoreline_probabilities h a n) (1/2) =
     poisson_pmf 0 h * poisson_pmf 0 a"
proof -
  have c: "(real (i + j) \<le> 1/2) = (i = 0 \<and> j = 0)" for i j :: nat
    by (cases "i + j") auto
  have "(\<Sum>i<n + 1. \<Sum>j<n + 1. if real (i + j) \<le> 1/2 then poisson_pmf i h * poisson_pmf j a else 0) =
        (\<Sum>i<n + 1. if i = 0 then (\<Sum>j<n + 1. if j = 0 then poisson_pmf 0 h * poisson_pmf 0 a else 0)
                      else 0)"
    unfolding c by (intro sum.cong refl) auto
  also have "\<dots> = poisson_pmf 0 h * poisson_pmf 0 a"
    by (simp add: sum.delta)
  finally show ?thesis
    by (simp only: under_prob_loop_generated)
qed

lemma result_keys:
  "map fst (calculate_over_under_probabilities m) =
     [''Under 0.5'', ''Under 1.5'', ''Under 2.5'', ''Under 3.5'']"
  by (simp add: calculate_over_under_probabilities_unfold thresholds_def float_str_def)

lemma result_under:
  "map (under_probability \<circ> snd) (calculate_over_under_probabilities m) =
     map (\<lambda>t. \<Sum>i<length m. \<Sum>j<length (m ! 0). if real (i + j) \<le> t then m ! i ! j else 0)
       thresholds"
  by (simp add: calculate_over_under_probabilities_unfold under_prob_loop_sum)

lemma result_over:
  "map (over_probability \<circ> snd) (calculate_over_under_probabilities m) =
     map (\<lambda>r. 1 - under_probability (snd r)) (calculate_over_under_probabilities m)"
  by (simp add: calculate_over_under_probabilities_unfold)

lemma result_total:
  "map (\<lambda>r. under_probability (snd r) + over_probability (snd r))
     (calculate_over_under_probabilities m) = [1, 1, 1, 1]"
  by (simp add: calculate_over_under_probabilities_unfold thresholds_def)

subsection \<open>The pipeline on a configuration with positive inputs\<close>

lemma simple_expectancy:
  assumes "0 < hf" and "0 < ha" and "0 < af" and "0 < aa" and "0 < l"
  shows "calculate_goal_expectancy (snd (calculate_strengths (set_team_averages e0 hf ha af aa l))) =
           Inr (hf / l * (aa / l) * l, af / l * (ha / l) * l)"
  using assms
  by (simp add: calculate_goal_expectancy_def calculate_strengths_def set_team_averages_def
        py_all_def)

lemma detailed_expectancy:
  assumes "0 < hf" and "0 < ha" and "0 < af" and "0 < aa" and "0 < lh" and "0 < la"
  shows "calculate_goal_expectancy
           (snd (calculate_strengths (set_team_averages_detailed e0 hf ha af aa lh la))) =
           Inr (hf / lh * (aa / lh) * lh, af / la * (ha / la) * la)"
  using assms
  by (simp add: calculate_goal_expectancy_def calculate_strengths_def
        set_team_averages_detailed_def py_all_def)

lemma simple_attack:
  assumes "0 < hf" and "0 < ha" and "0 < af" and "0 < aa" and "0 < l"
  shows "py_all [home_attack_strength (snd (calculate_strengths (set_team_averages e0 hf ha af aa l))),
                 away_attack_strength (snd (calculate_strengths (set_team_averages e0 hf ha af aa l)))]"
  using assms
  by (simp add: calculate_strengths_def set_team_averages_def py_all_def)

lemma detailed_attack:
  assumes "0 < hf" and "0 < ha" and "0 < af" and "0 < aa" and "0 < lh" and "0 < la"
  shows "py_all [home_attack_strength
                   (snd (calculate_strengths (set_team_averages_detailed e0 hf ha af aa lh la))),
                 away_attack_strength
                   (snd (calculate_strengths (set_team_averages_detailed e0 hf ha af aa lh la)))]"
  using assms
  by (simp add: calculate_strengths_def set_team_averages_detailed_def py_all_def)

lemma over_under_results_ok:
  assumes "py_all [home_attack_strength e, away_attack_strength e]"
    and "calculate_goal_expectancy e = Inr (h, a)"
  shows "over_under_results e =
           Inr (calculate_over_under_probabilities
                  (generate_scoreline_probabilities h a max_goals_default))"
  using assms by (simp add: over_under_results_def)

text \<open>A configuration with positive averages and baseline, strengths computed.\<close>

lemma configured_results:
  assumes "0 < hf" and "0 < ha" and "0 < af" and "0 < aa"
    and "cfg = set_team_averages e0 hf ha af aa l \<and> 0 < l
       \<or> cfg = set_team_averages_detailed e0 hf ha af aa lh la \<and> 0 < lh \<and> 0 < la"
  shows "\<exists>h a. 0 < h \<and> 0 < a
           \<and> calculate_goal_expectancy (snd (calculate_strengths cfg)) = Inr (h, a)
           \<and> over_under_results (snd (calculate_strengths cfg)) =
               Inr (calculate_over_under_probabilities
                      (generate_scoreline_probabilities h a max_goals_default))"
  using assms(5)
proof
  assume c: "cfg = set_team_averages e0 hf ha af aa l \<and> 0 < l"
  let ?h = "hf / l * (aa / l) * l" and ?a = "af / l * (ha / l) * l"
  have "0 < ?h" "0 < ?a" using assms(1-4) c by simp_all
  moreover have ge: "calculate_goal_expectancy (snd (calculate_strengths cfg)) = Inr (?h, ?a)"
    using assms(1-4) c by (simp add: simple_expectancy)
  moreover have "py_all [home_attack_strength (snd (calculate_strengths cfg)),
                         away_attack_strength (snd (calculate_strengths cfg))]"
    using assms(1-4) c by (simp add: simple_attack)
  then have "over_under_results (snd (calculate_strengths cfg)) =
               Inr (calculate_over_under_probabilities
                      (generate_scoreline_probabilities ?h ?a max_goals_default))"
    using ge by (rule over_under_results_ok)
  ultimately show ?thesis by blast
next
  assume c: "cfg = set_team_averages_detailed e0 hf ha af aa lh la \<and> 0 < lh \<and> 0 < la"
  let ?h = "hf / lh * (aa / lh) * lh" and ?a = "af / la * (ha / la) * la"
  have "0 < ?h" "0 < ?a" using assms(1-4) c by simp_all
  moreover have ge: "calculate_goal_expectancy (snd (calculate_strengths cfg)) = Inr (?h, ?a)"
    using assms(1-4) c by (simp add: detailed_expectancy)
  moreover have "py_all [home_attack_strength (snd (calculate_strengths cfg)),
                         away_attack_strength (snd (calculate_strengths cfg))]"
    using assms(1-4) c by (simp add: detailed_attack)
  then have "over_under_results (snd (calculate_strengths cfg)) =
               Inr (calculate_over_under_probabilities
                      (generate_scoreline_probabilities ?h ?a max_goals_default))"
    using ge by (rule over_under_results_ok)
  ultimately show ?thesis by blast
qed

lemma summary_total:
  assumes "py_all [home_attack_strength e, away_attack_strength e]"
    and "calculate_goal_expectancy e = Inr (h, a)"
  shows "\<exists>s. get_summary_info e = Inr s
           \<and> map_of s ''Home Team Expected Goals'' = Some (format_fixed2 h)
           \<and> map_of s ''Away Team Expected Goals'' = Some (format_fixed2 a)
           \<and> map_of s ''Total Expected Goals'' = Some (format_fixed2 (h + a))"
  using assms by (simp add: get_summary_info_def)

subsection \<open>Formatting and a bound on the exponential\<close>

lemma format_fixed2_has_point: "CHR ''.'' \<in> set (format_fixed2 x)"
  by (simp add: format_fixed2_def Let_def)

lemma format_fixed2_not_inf: "format_fixed2 x \<noteq> ''inf''"
proof
  assume "format_fixed2 x = ''inf''"
  then have "CHR ''.'' \<in> set ''inf''"
    using format_fixed2_has_point [of x] by simp
  then show False by simp
qed

lemma round_half_even_small:
  assumes "0 \<le> y" and "y < 1/2"
  shows "round_half_even y = 0"
proof -
  have "\<lfloor>y\<rfloor> = 0" using assms by (simp add: floor_eq_iff)
  then show ?thesis using assms by (simp add: round_half_even_def)
qed

lemma format_fixed2_small:
  assumes "0 \<le> x" and "x * 100 < 1/2"
  shows "format_fixed2 x = ''0.00''"
proof -
  have "round_half_even (\<bar>x\<bar> * 100) = 0"
    using assms by (intro round_half_even_small) simp_all
  then show ?thesis
    using assms(1) by (simp add: format_fixed2_def digit_char_def)
qed

lemma exp_12_lower: "20000 < exp (12::real)"
proof -
  have "(5/2::real) \<le> exp 1"
    using exp_lower_Taylor_quadratic [of "1::real"] by simp
  then have "(5/2::real) ^ 12 \<le> exp 1 ^ 12"
    by (intro power_mono) simp_all
  moreover have "exp (1::real) ^ 12 = exp 12"
    using exp_of_nat_mult [of 12 "1::real"] by simp
  moreover have "(20000::real) < (5/2) ^ 12"
    by (simp add: power_divide)
  ultimately show ?thesis by linarith
qed

lemma tiny_under_probability:
  "0 < exp (- 6) * exp (- (6::real))" "exp (- 6) * exp (- (6::real)) * 100 * 100 < 1/2"
proof -
  have "exp (- 6) * exp (- (6::real)) = exp (- 12)"
    by (simp add: exp_add [symmetric])
  then have e: "exp (- 6) * exp (- (6::real)) = inverse (exp 12)"
    by (simp only: exp_minus)
  show "0 < exp (- 6) * exp (- (6::real))" by simp
  show "exp (- 6) * exp (- (6::real)) * 100 * 100 < 1/2"
    unfolding e using exp_12_lower by (simp add: field_simps)
qed

subsection \<open>Rounding to a double\<close>

lemma round_half_even_int: "round_half_even (real_of_int m) = m"
  by (simp add: round_half_even_def)

lemma round_half_even_numeral: "round_half_even (numeral k) = numeral k"
  using round_half_even_int [of "numeral k"] by simp

lemma round_half_even_near:
  assumes "\<bar>y - real_of_int m\<bar> < 1/2"
  shows "round_half_even y = m"
proof (cases "real_of_int m \<le> y")
  case True
  then have "\<lfloor>y\<rfloor> = m" using assms by (simp add: floor_eq_iff; linarith)
  then show ?thesis using assms True by (simp add: round_half_even_def)
next
  case False
  then have "\<lfloor>y\<rfloor> = m - 1" using assms by (simp add: floor_eq_iff; linarith)
  then show ?thesis using assms False by (simp add: round_half_even_def)
qed

lemma round_double_below_one:
  assumes "1 / 2 ^ (n + 1) \<le> x" and "x < 1 / 2 ^ n" and "n < 1022"
  shows "round_double x = real_of_int (round_half_even (x * 2 ^ (n + 53))) / 2 ^ (n + 53)"
proof -
  have pos: "0 < x"
    using assms(1) by (smt (verit) divide_pos_pos zero_less_power)
  have p: "2 powr real_of_int (- int k) = 1 / 2 ^ k" for k
  proof -
    have "2 powr real_of_int (- int k) = 2 powr (- real k)" by simp
    also have "\<dots> = 1 / 2 powr real k" by (rule powr_minus_divide)
    also have "\<dots> = 1 / 2 ^ k" by (simp add: powr_realpow)
    finally show ?thesis .
  qed
  have "- int (n + 1) + 1 = - int n" by simp
  then have "2 powr real_of_int (- int (n + 1)) \<le> x
           \<and> x < 2 powr real_of_int (- int (n + 1) + 1)"
    using assms(1,2) by (simp only: p)
  then have "\<lfloor>log 2 x\<rfloor> = - int (n + 1)"
    using pos by (subst floor_log_eq_powr_iff) simp_all
  then have e: "max \<lfloor>log 2 x\<rfloor> (- 1022) = - int (n + 1)"
    using assms(3) by simp
  have q: "(2::real) powi (- int (n + 1) - 52) = 1 / 2 ^ (n + 53)"
  proof -
    have "- int (n + 1) - 52 = - int (n + 53)" by simp
    then show ?thesis by (simp only: power_int_minus power_int_of_nat inverse_eq_divide)
  qed
  have "\<bar>x\<bar> = x" "sgn x = 1" "x \<noteq> 0"
    using pos by simp_all
  then show ?thesis
    by (simp only: round_double_def Let_def e q if_False) simp
qed

lemma round_double_at_least_one:
  assumes "2 ^ n \<le> x" and "x < 2 ^ (n + 1)" and "n \<le> 52"
  shows "round_double x = real_of_int (round_half_even (x * 2 ^ (52 - n))) / 2 ^ (52 - n)"
proof -
  have pos: "0 < x"
    using assms(1) by (smt (verit) zero_less_power)
  have "2 powr real_of_int (int n) \<le> x \<and> x < 2 powr real_of_int (int n + 1)"
  proof -
    have "2 powr real_of_int (int n) = 2 ^ n"
      by (simp add: powr_realpow)
    moreover have "2 powr real_of_int (int n + 1) = 2 ^ (n + 1)"
    proof -
      have "real_of_int (int n + 1) = real (n + 1)" by simp
      then show ?thesis by (simp only: powr_realpow zero_less_numeral)
    qed
    ultimately show ?thesis using assms(1,2) by simp
  qed
  then have "\<lfloor>log 2 x\<rfloor> = int n"
    using pos by (subst floor_log_eq_powr_iff) simp_all
  then have e: "max \<lfloor>log 2 x\<rfloor> (- 1022) = int n"
    by simp
  have q: "(2::real) powi (int n - 52) = 1 / 2 ^ (52 - n)"
  proof -
    have "int n - 52 = - int (52 - n)" using assms(3) by simp
    then show ?thesis by (simp only: power_int_minus power_int_of_nat inverse_eq_divide)
  qed
  have "\<bar>x\<bar> = x" "sgn x = 1" "x \<noteq> 0"
    using pos by simp_all
  then show ?thesis
    by (simp only: round_double_def Let_def e q if_False) simp
qed

lemma round_double_eval:
  assumes "1 / 2 ^ (n + 1) \<le> x" and "x < 1 / 2 ^ n" and "n < 1022"
    and "round_half_even (x * 2 ^ (n + 53)) = m"
  shows "round_double x = real_of_int m / 2 ^ (n + 53)"
  using round_double_below_one [OF assms(1-3)] assms(4) by simp

lemma round_double_one: "round_double 1 = 1"
  using round_double_at_least_one [of 0 1] by (simp add: round_half_even_numeral)

lemma round_double_half: "round_double (1/2) = 1/2"
  by (subst round_double_eval [where n = 0 and m = "2 ^ 52"]) (simp_all add: round_half_even_numeral)

subsection \<open>The doubles nearest to two values of the exponential\<close>

lemma exp_minus_one_bounds:
  "(\<Sum>m<24. (- 1) ^ m / fact m) < exp (- 1 :: real)"
  "exp (- 1 :: real) \<le> (\<Sum>m<24. (- 1) ^ m / fact m) + 3 / fact 24"
proof -
  obtain t :: real where t: "\<bar>t\<bar> \<le> \<bar>- 1 :: real\<bar>"
    and e: "exp (- 1 :: real) = (\<Sum>m<24. (- 1) ^ m / fact m) + (exp t / fact 24) * (- 1) ^ 24"
    using Maclaurin_exp_le [of "- 1" 24] by blast
  have "exp t \<le> exp 1" using t by simp
  then have le: "exp t \<le> 3" using exp_le by linarith
  have "0 < exp t / fact 24" by simp
  then show "(\<Sum>m<24. (- 1) ^ m / fact m) < exp (- 1 :: real)"
    using e by simp
  have "exp t / fact 24 \<le> 3 / fact 24"
    using le by (intro divide_right_mono) simp_all
  then show "exp (- 1 :: real) \<le> (\<Sum>m<24. (- 1) ^ m / fact m) + 3 / fact 24"
    using e by simp
qed

lemma exp_minus_half_bounds:
  "(\<Sum>m<20. (- (1/2)) ^ m / fact m) < exp (- (1/2) :: real)"
  "exp (- (1/2) :: real) \<le> (\<Sum>m<20. (- (1/2)) ^ m / fact m) + 3 / (fact 20 * 2 ^ 20)"
proof -
  obtain t :: real where t: "\<bar>t\<bar> \<le> \<bar>- (1/2) :: real\<bar>"
    and e: "exp (- (1/2) :: real) =
              (\<Sum>m<20. (- (1/2)) ^ m / fact m) + (exp t / fact 20) * (- (1/2)) ^ 20"
    using Maclaurin_exp_le [of "- (1/2)" 20] by blast
  have "t \<le> 1" using t by simp
  then have "exp t \<le> exp 1" by simp
  then have le: "exp t \<le> 3" using exp_le by linarith
  have r: "(exp t / fact 20) * (- (1/2)) ^ 20 = exp t / (fact 20 * 2 ^ 20)"
    by (simp add: power_divide)
  have "0 < exp t / (fact 20 * 2 ^ 20)" by simp
  then show "(\<Sum>m<20. (- (1/2)) ^ m / fact m) < exp (- (1/2) :: real)"
    using e unfolding r by linarith
  have "exp t / (fact 20 * 2 ^ 20) \<le> 3 / (fact 20 * 2 ^ 20)"
    using le by (intro divide_right_mono) simp_all
  then show "exp (- (1/2) :: real) \<le> (\<Sum>m<20. (- (1/2)) ^ m / fact m) + 3 / (fact 20 * 2 ^ 20)"
    using e unfolding r by linarith
qed

lemma exp_double_minus_one: "exp_double (- 1) = 828390857088487 / 2 ^ 51"
proof -
  have lo: "(6627126856707896 - 1/2) / 2 ^ 54 < (\<Sum>m<24. (- 1) ^ m / fact m :: real)"
    by (simp add: lessThan_nat_numeral fact_numeral)
  have hi: "(\<Sum>m<24. (- 1) ^ m / fact m :: real) + 3 / fact 24 < (6627126856707896 + 1/2) / 2 ^ 54"
    by (simp add: lessThan_nat_numeral fact_numeral)
  have l: "(6627126856707896 - 1/2) / 2 ^ 54 < exp (- 1 :: real)"
    using lo exp_minus_one_bounds(1) by linarith
  have h: "exp (- 1 :: real) < (6627126856707896 + 1/2) / 2 ^ 54"
    using hi exp_minus_one_bounds(2) by linarith
  have "\<bar>exp (- 1 :: real) * 2 ^ (1 + 53) - real_of_int 6627126856707896\<bar> < 1/2"
    using l h unfolding abs_less_iff by (simp add: field_simps)
  then have "round_half_even (exp (- 1 :: real) * 2 ^ (1 + 53)) = 6627126856707896"
    by (rule round_half_even_near)
  moreover have "1 / 2 ^ (1 + 1) \<le> exp (- 1 :: real)" "exp (- 1 :: real) < 1 / 2 ^ 1"
    using l h by simp_all
  ultimately have "round_double (exp (- 1)) = real_of_int 6627126856707896 / 2 ^ (1 + 53)"
    by (intro round_double_eval) simp_all
  then show ?thesis by (simp add: exp_double_def)
qed

lemma exp_double_minus_half: "exp_double (- (1/2)) = 2731571253070597 / 2 ^ 52"
proof -
  have lo: "(5463142506141194 - 1/2) / 2 ^ 53 < (\<Sum>m<20. (- (1/2)) ^ m / fact m :: real)"
    by (simp add: lessThan_nat_numeral fact_numeral power_divide)
  have hi: "(\<Sum>m<20. (- (1/2)) ^ m / fact m :: real) + 3 / (fact 20 * 2 ^ 20)
              < (5463142506141194 + 1/2) / 2 ^ 53"
    by (simp add: lessThan_nat_numeral fact_numeral power_divide)
  have l: "(5463142506141194 - 1/2) / 2 ^ 53 < exp (- (1/2) :: real)"
    using lo exp_minus_half_bounds(1) by linarith
  have h: "exp (- (1/2) :: real) < (5463142506141194 + 1/2) / 2 ^ 53"
    using hi exp_minus_half_bounds(2) by linarith
  have "\<bar>exp (- (1/2) :: real) * 2 ^ (0 + 53) - real_of_int 5463142506141194\<bar> < 1/2"
    using l h unfolding abs_less_iff by (simp add: field_simps)
  then have "round_half_even (exp (- (1/2) :: real) * 2 ^ (0 + 53)) = 5463142506141194"
    by (rule round_half_even_near)
  moreover have "1 / 2 ^ (0 + 1) \<le> exp (- (1/2) :: real)" "exp (- (1/2) :: real) < 1 / 2 ^ 0"
    using l h by simp_all
  ultimately have "round_double (exp (- (1/2))) = real_of_int 5463142506141194 / 2 ^ (0 + 53)"
    by (intro round_double_eval) simp_all
  then show ?thesis by (simp add: exp_double_def)
qed

subsection \<open>The matrix in double precision and the cells that a market adds\<close>

lemma fold_cond_cells:
  "fold (\<lambda>j u. if c j then g u (v j) else u) js u0 = fold (\<lambda>p u. g u p) (map v (filter c js)) u0"
  by (induction js arbitrary: u0) auto

lemma fold_concat_cells:
  "fold (\<lambda>i u. fold g (L i) u) is u0 = fold g (concat (map L is)) u0"
  by (induction "is" arbitrary: u0) auto

lemma under_prob_loop_double_cells:
  "under_prob_loop_double m t = fold (\<lambda>p u. round_double (u + p)) (under_cells m t) 0"
proof -
  let ?g = "\<lambda>p u. round_double (u + p)"
  let ?L = "\<lambda>i. map (\<lambda>j. m ! i ! j) (filter (\<lambda>j. real (i + j) \<le> t) [0..<length (m ! 0)])"
  have inner: "fold (\<lambda>j u'. if real (i + j) \<le> t then round_double (u' + m ! i ! j) else u')
                 [0..<length (m ! 0)] = fold ?g (?L i)" for i
    by (rule ext, rule fold_cond_cells [where g = "\<lambda>u p. round_double (u + p)" and v = "\<lambda>j. m ! i ! j"])
  have "under_prob_loop_double m t = fold (\<lambda>i. fold ?g (?L i)) [0..<length m] 0"
    unfolding under_prob_loop_double_def Let_def by (simp only: inner)
  also have "\<dots> = fold ?g (concat (map ?L [0..<length m])) 0"
    using fold_concat_cells [of ?g ?L "[0..<length m]" 0] by simp
  finally show ?thesis
    by (simp only: under_cells_def)
qed

lemma generate_scoreline_probabilities_double_length:
  "length (generate_scoreline_probabilities_double h a n) = n + 1"
  unfolding generate_scoreline_probabilities_double_def Let_def
  by (simp only: fill_length zeros_length)

lemma generate_scoreline_probabilities_double_row_length:
  assumes "i \<le> n"
  shows "length (generate_scoreline_probabilities_double h a n ! i) = n + 1"
proof -
  have "distinct [0..<n + 1]" by simp
  moreover have "i \<in> set [0..<n + 1]"
    using assms by auto
  moreover have "i < length (zeros (n + 1) (n + 1))"
    using assms by (simp add: zeros_length)
  moreover have "zeros (n + 1) (n + 1) ! i = replicate (n + 1) 0"
    using assms by (intro zeros_row) simp
  ultimately show ?thesis
    unfolding generate_scoreline_probabilities_double_def Let_def
    by (simp only: fill_row fold_row_update_length length_replicate)
qed

lemma generate_scoreline_probabilities_double_nth:
  assumes "i \<le> n" and "j \<le> n"
  shows "generate_scoreline_probabilities_double h a n ! i ! j =
           round_double (poisson_pmf_double i h * poisson_pmf_double j a)"
proof -
  have row: "zeros (n + 1) (n + 1) ! i = replicate (n + 1) 0"
    using assms by (intro zeros_row) simp
  have "distinct [0..<n + 1]" by simp
  moreover have "i \<in> set [0..<n + 1]" "j \<in> set [0..<n + 1]"
    using assms by auto
  moreover have "i < length (zeros (n + 1) (n + 1))"
    using assms by (simp add: zeros_length)
  moreover have "j < length (zeros (n + 1) (n + 1) ! i)"
    using assms unfolding row by simp
  ultimately show ?thesis
    unfolding generate_scoreline_probabilities_double_def Let_def
    by (rule fill_nth)
qed

lemma generate_scoreline_probabilities_double_transpose:
  assumes "i \<le> n" and "j \<le> n"
  shows "generate_scoreline_probabilities_double a h n ! i ! j =
         generate_scoreline_probabilities_double h a n ! j ! i"
  using assms by (simp add: generate_scoreline_probabilities_double_nth mult.commute)

lemma mset_filter_cells:
  "mset (map v (filter c js)) = sum_list (map (\<lambda>j. if c j then {#v j#} else {#}) js)"
  by (induction js) auto

lemma mset_concat_map:
  "mset (concat (map L is)) = sum_list (map (\<lambda>i. mset (L i)) is)"
  by (induction "is") auto

lemma under_cells_mset:
  "mset (under_cells m t) =
     (\<Sum>i<length m. \<Sum>j<length (m ! 0). if real (i + j) \<le> t then {#m ! i ! j#} else {#})"
proof -
  have "mset (under_cells m t) =
          sum_list (map (\<lambda>i. sum_list (map (\<lambda>j. if real (i + j) \<le> t then {#m ! i ! j#} else {#})
                                           [0..<length (m ! 0)])) [0..<length m])"
    unfolding under_cells_def mset_concat_map
    by (simp only: mset_filter_cells [where v = "\<lambda>j. m ! _ ! j"])
  then show ?thesis
    by (simp add: interv_sum_list_conv_sum_set_nat atLeast0LessThan)
qed

lemma under_cells_mset_transpose:
  "mset (under_cells (generate_scoreline_probabilities_double a h n) t) =
   mset (under_cells (generate_scoreline_probabilities_double h a n) t)"
proof -
  let ?m = "generate_scoreline_probabilities_double h a n"
  let ?m' = "generate_scoreline_probabilities_double a h n"
  have len: "length (?m ! 0) = n + 1" "length (?m' ! 0) = n + 1"
    by (rule generate_scoreline_probabilities_double_row_length, simp)+
  have "(\<Sum>i<n + 1. \<Sum>j<n + 1. if real (i + j) \<le> t then {#?m' ! i ! j#} else {#}) =
        (\<Sum>i<n + 1. \<Sum>j<n + 1. if real (i + j) \<le> t then {#?m ! j ! i#} else {#})"
    by (intro sum.cong refl)
      (auto simp: generate_scoreline_probabilities_double_transpose less_Suc_eq_le)
  also have "\<dots> = (\<Sum>j<n + 1. \<Sum>i<n + 1. if real (i + j) \<le> t then {#?m ! j ! i#} else {#})"
    by (rule sum.swap)
  also have "\<dots> = (\<Sum>j<n + 1. \<Sum>i<n + 1. if real (j + i) \<le> t then {#?m ! j ! i#} else {#})"
    by (simp only: add.commute)
  finally show ?thesis
    by (simp only: under_cells_mset generate_scoreline_probabilities_double_length len)
qed

lemma under_cells_exact_sum_transpose:
  "sum_list (under_cells (generate_scoreline_probabilities_double a h n) t) =
   sum_list (under_cells (generate_scoreline_probabilities_double h a n) t)"
  using under_cells_mset_transpose [of a h n t] by (metis sum_mset_sum_list)

lemma under_cells_three_halves:
  assumes "length m = 9" and "length (m ! 0) = 9"
  shows "under_cells m (3/2) = [m ! 0 ! 0, m ! 0 ! 1, m ! 1 ! 0]"
  by (simp add: under_cells_def assms upt_rec)

subsection \<open>The market Under 1.5 at the expectancies 1 and 0.5, in double precision\<close>

lemma round_double_e1: "round_double (828390857088487 / 2 ^ 51) = 828390857088487 / 2 ^ 51"
proof -
  have "round_double (828390857088487 / 2 ^ 51) = real_of_int 6627126856707896 / 2 ^ (1 + 53)"
    by (rule round_double_eval) (simp_all add: round_half_even_def)
  then show ?thesis by simp
qed

lemma round_double_e2: "round_double (2731571253070597 / 2 ^ 52) = 2731571253070597 / 2 ^ 52"
proof -
  have "round_double (2731571253070597 / 2 ^ 52) = real_of_int 5463142506141194 / 2 ^ (0 + 53)"
    by (rule round_double_eval) (simp_all add: round_half_even_def)
  then show ?thesis by simp
qed

lemma round_double_e2_half: "round_double (1 / 2 * (2731571253070597 / 2 ^ 52)) = 2731571253070597 / 2 ^ 53"
proof -
  have "round_double (1 / 2 * (2731571253070597 / 2 ^ 52)) = real_of_int 5463142506141194 / 2 ^ (1 + 53)"
    by (rule round_double_eval) (simp_all add: round_half_even_def)
  then show ?thesis by simp
qed

lemma round_double_e2_half_fixed:
  "round_double (2731571253070597 / 2 ^ 53) = 2731571253070597 / 2 ^ 53"
proof -
  have "round_double (2731571253070597 / 2 ^ 53) = real_of_int 5463142506141194 / 2 ^ (1 + 53)"
    by (rule round_double_eval) (simp_all add: round_half_even_def)
  then show ?thesis by simp
qed

lemma round_double_cell_00: "round_double (828390857088487 / 2 ^ 51 * (2731571253070597 / 2 ^ 52)) = 4019555624398351 / 2 ^ 54"
proof -
  have "round_double (828390857088487 / 2 ^ 51 * (2731571253070597 / 2 ^ 52)) = real_of_int 8039111248796702 / 2 ^ (2 + 53)"
    by (rule round_double_eval) (simp_all add: round_half_even_def)
  then show ?thesis by simp
qed

lemma round_double_cell_00_swapped: "round_double (2731571253070597 / 2 ^ 52 * (828390857088487 / 2 ^ 51)) = 4019555624398351 / 2 ^ 54"
proof -
  have "round_double (2731571253070597 / 2 ^ 52 * (828390857088487 / 2 ^ 51)) = real_of_int 8039111248796702 / 2 ^ (2 + 53)"
    by (rule round_double_eval) (simp_all add: round_half_even_def)
  then show ?thesis by simp
qed

lemma round_double_cell_01: "round_double (828390857088487 / 2 ^ 51 * (2731571253070597 / 2 ^ 53)) = 4019555624398351 / 2 ^ 55"
proof -
  have "round_double (828390857088487 / 2 ^ 51 * (2731571253070597 / 2 ^ 53)) = real_of_int 8039111248796702 / 2 ^ (3 + 53)"
    by (rule round_double_eval) (simp_all add: round_half_even_def)
  then show ?thesis by simp
qed

lemma round_double_cell_10_swapped: "round_double (2731571253070597 / 2 ^ 53 * (828390857088487 / 2 ^ 51)) = 4019555624398351 / 2 ^ 55"
proof -
  have "round_double (2731571253070597 / 2 ^ 53 * (828390857088487 / 2 ^ 51)) = real_of_int 8039111248796702 / 2 ^ (3 + 53)"
    by (rule round_double_eval) (simp_all add: round_half_even_def)
  then show ?thesis by simp
qed

lemma round_double_sum_0: "round_double (4019555624398351 / 2 ^ 54) = 4019555624398351 / 2 ^ 54"
proof -
  have "round_double (4019555624398351 / 2 ^ 54) = real_of_int 8039111248796702 / 2 ^ (2 + 53)"
    by (rule round_double_eval) (simp_all add: round_half_even_def)
  then show ?thesis by simp
qed

lemma round_double_sum_1: "round_double (4019555624398351 / 2 ^ 54 + 4019555624398351 / 2 ^ 55) = 3014666718298763 / 2 ^ 53"
proof -
  have "round_double (4019555624398351 / 2 ^ 54 + 4019555624398351 / 2 ^ 55) = real_of_int 6029333436597526 / 2 ^ (1 + 53)"
    by (rule round_double_eval) (simp_all add: round_half_even_def)
  then show ?thesis by simp
qed

lemma round_double_sum_2: "round_double (3014666718298763 / 2 ^ 53 + 4019555624398351 / 2 ^ 54) = 2512222265248969 / 2 ^ 52"
proof -
  have "round_double (3014666718298763 / 2 ^ 53 + 4019555624398351 / 2 ^ 54) = real_of_int 5024444530497938 / 2 ^ (0 + 53)"
    by (rule round_double_eval) (simp_all add: round_half_even_def)
  then show ?thesis by simp
qed

lemma round_double_sum_1_swapped: "round_double (4019555624398351 / 2 ^ 54 + 4019555624398351 / 2 ^ 54) = 4019555624398351 / 2 ^ 53"
proof -
  have "round_double (4019555624398351 / 2 ^ 54 + 4019555624398351 / 2 ^ 54) = real_of_int 8039111248796702 / 2 ^ (1 + 53)"
    by (rule round_double_eval) (simp_all add: round_half_even_def)
  then show ?thesis by simp
qed

lemma round_double_sum_2_swapped: "round_double (4019555624398351 / 2 ^ 53 + 4019555624398351 / 2 ^ 55) = 5024444530497939 / 2 ^ 53"
proof -
  have "round_double (4019555624398351 / 2 ^ 53 + 4019555624398351 / 2 ^ 55) = real_of_int 5024444530497939 / 2 ^ (0 + 53)"
    by (rule round_double_eval) (simp_all add: round_half_even_def)
  then show ?thesis by simp
qed

lemma poisson_pmf_double_0_1: "poisson_pmf_double 0 1 = 828390857088487 / 2 ^ 51"
proof -
  have "poisson_pmf_double 0 1 =
          round_double (round_double (round_double 1 * exp_double (- 1)) / round_double 1)"
    by (simp add: poisson_pmf_double_def)
  also have "\<dots> = round_double (round_double (828390857088487 / 2 ^ 51) / 1)"
    by (simp only: round_double_one exp_double_minus_one mult_1)
  also have "\<dots> = 828390857088487 / 2 ^ 51"
    by (simp only: round_double_e1 div_by_1)
  finally show ?thesis .
qed

lemma poisson_pmf_double_1_1: "poisson_pmf_double 1 1 = 828390857088487 / 2 ^ 51"
proof -
  have "poisson_pmf_double 1 1 =
          round_double (round_double (round_double 1 * exp_double (- 1)) / round_double 1)"
    by (simp add: poisson_pmf_double_def)
  also have "\<dots> = round_double (round_double (828390857088487 / 2 ^ 51) / 1)"
    by (simp only: round_double_one exp_double_minus_one mult_1)
  also have "\<dots> = 828390857088487 / 2 ^ 51"
    by (simp only: round_double_e1 div_by_1)
  finally show ?thesis .
qed

lemma poisson_pmf_double_0_half: "poisson_pmf_double 0 (1/2) = 2731571253070597 / 2 ^ 52"
proof -
  have "poisson_pmf_double 0 (1/2) =
          round_double (round_double (round_double 1 * exp_double (- (1/2))) / round_double 1)"
    by (simp add: poisson_pmf_double_def)
  also have "\<dots> = round_double (round_double (2731571253070597 / 2 ^ 52) / 1)"
    by (simp only: round_double_one exp_double_minus_half mult_1)
  also have "\<dots> = 2731571253070597 / 2 ^ 52"
    by (simp only: round_double_e2 div_by_1)
  finally show ?thesis .
qed

lemma poisson_pmf_double_1_half: "poisson_pmf_double 1 (1/2) = 2731571253070597 / 2 ^ 53"
proof -
  have "poisson_pmf_double 1 (1/2) =
          round_double (round_double (round_double (1/2) * exp_double (- (1/2))) / round_double 1)"
    by (simp add: poisson_pmf_double_def)
  also have "\<dots> = round_double (round_double (1 / 2 * (2731571253070597 / 2 ^ 52)) / 1)"
    by (simp only: round_double_one round_double_half exp_double_minus_half)
  also have "\<dots> = 2731571253070597 / 2 ^ 53"
    by (simp only: round_double_e2_half div_by_1 round_double_e2_half_fixed)
  finally show ?thesis .
qed

lemma under_double_original:
  "under_prob_loop_double (generate_scoreline_probabilities_double 1 (1/2) max_goals_default) (3/2) =
     2512222265248969 / 2 ^ 52"
proof -
  let ?m = "generate_scoreline_probabilities_double 1 (1/2) 8"
  have "length ?m = 9"
    by (simp add: generate_scoreline_probabilities_double_length)
  moreover have "length (?m ! 0) = 9"
    by (simp add: generate_scoreline_probabilities_double_row_length)
  ultimately have "under_cells ?m (3/2) = [?m ! 0 ! 0, ?m ! 0 ! 1, ?m ! 1 ! 0]"
    by (rule under_cells_three_halves)
  also have "\<dots> = [round_double (poisson_pmf_double 0 1 * poisson_pmf_double 0 (1/2)),
                     round_double (poisson_pmf_double 0 1 * poisson_pmf_double 1 (1/2)),
                     round_double (poisson_pmf_double 1 1 * poisson_pmf_double 0 (1/2))]"
    by (simp add: generate_scoreline_probabilities_double_nth)
  also have "\<dots> = [4019555624398351 / 2 ^ 54, 4019555624398351 / 2 ^ 55, 4019555624398351 / 2 ^ 54]"
    by (simp only: poisson_pmf_double_0_1 poisson_pmf_double_1_1 poisson_pmf_double_0_half
          poisson_pmf_double_1_half round_double_cell_00 round_double_cell_01)
  finally have cells: "under_cells ?m (3/2) =
      [4019555624398351 / 2 ^ 54, 4019555624398351 / 2 ^ 55, 4019555624398351 / 2 ^ 54]" .
  have "under_prob_loop_double ?m (3/2) =
          round_double (round_double (round_double (0 + 4019555624398351 / 2 ^ 54)
            + 4019555624398351 / 2 ^ 55) + 4019555624398351 / 2 ^ 54)"
    by (simp only: under_prob_loop_double_cells cells fold_simps id_apply comp_apply)
  also have "\<dots> = 2512222265248969 / 2 ^ 52"
    by (simp only: add_0 round_double_sum_0 round_double_sum_1 round_double_sum_2)
  finally show ?thesis
    by (simp only: max_goals_default_def)
qed

lemma under_double_swapped:
  "under_prob_loop_double (generate_scoreline_probabilities_double (1/2) 1 max_goals_default) (3/2) =
     5024444530497939 / 2 ^ 53"
proof -
  let ?m = "generate_scoreline_probabilities_double (1/2) 1 8"
  have "length ?m = 9"
    by (simp add: generate_scoreline_probabilities_double_length)
  moreover have "length (?m ! 0) = 9"
    by (simp add: generate_scoreline_probabilities_double_row_length)
  ultimately have "under_cells ?m (3/2) = [?m ! 0 ! 0, ?m ! 0 ! 1, ?m ! 1 ! 0]"
    by (rule under_cells_three_halves)
  also have "\<dots> = [round_double (poisson_pmf_double 0 (1/2) * poisson_pmf_double 0 1),
                     round_double (poisson_pmf_double 0 (1/2) * poisson_pmf_double 1 1),
                     round_double (poisson_pmf_double 1 (1/2) * poisson_pmf_double 0 1)]"
    by (simp add: generate_scoreline_probabilities_double_nth)
  also have "\<dots> = [4019555624398351 / 2 ^ 54, 4019555624398351 / 2 ^ 54, 4019555624398351 / 2 ^ 55]"
    by (simp only: poisson_pmf_double_0_1 poisson_pmf_double_1_1 poisson_pmf_double_0_half
          poisson_pmf_double_1_half round_double_cell_00_swapped round_double_cell_10_swapped)
  finally have cells: "under_cells ?m (3/2) =
      [4019555624398351 / 2 ^ 54, 4019555624398351 / 2 ^ 54, 4019555624398351 / 2 ^ 55]" .
  have "under_prob_loop_double ?m (3/2) =
          round_double (round_double (round_double (0 + 4019555624398351 / 2 ^ 54)
            + 4019555624398351 / 2 ^ 54) + 4019555624398351 / 2 ^ 55)"
    by (simp only: under_prob_loop_double_cells cells fold_simps id_apply comp_apply)
  also have "\<dots> = 5024444530497939 / 2 ^ 53"
    by (simp only: add_0 round_double_sum_0 round_double_sum_1_swapped round_double_sum_2_swapped)
  finally show ?thesis
    by (simp only: max_goals_default_def)
qed

section \<open>The claims\<close>

subsection \<open>Market probabilities and the scoreline matrix\<close>

text \<open>
  Claim C1. For an engine configured with positive averages and a positive baseline
  (simple or detailed) and with strengths computed, the market dict has one entry for
  each threshold 0.5, 1.5, 2.5, 3.5, in this order; the under-probability of the entry
  for \<open>t\<close> is the sum of the matrix cells \<open>[i][j]\<close> with \<open>i + j \<le> t\<close>, the
  over-probability is 1 minus the under-probability, and the two add up to 1.
\<close>

theorem over_under_complement:
  assumes "0 < hf" and "0 < ha" and "0 < af" and "0 < aa"
    and "cfg = set_team_averages e0 hf ha af aa l \<and> 0 < l
       \<or> cfg = set_team_averages_detailed e0 hf ha af aa lh la \<and> 0 < lh \<and> 0 < la"
  shows "\<exists>h a results.
           calculate_goal_expectancy (snd (calculate_strengths cfg)) = Inr (h, a)
         \<and> over_under_results (snd (calculate_strengths cfg)) = Inr results
         \<and> map fst results = [''Under 0.5'', ''Under 1.5'', ''Under 2.5'', ''Under 3.5'']
         \<and> map (under_probability \<circ> snd) results =
             map (\<lambda>t. \<Sum>i<length (generate_scoreline_probabilities h a max_goals_default).
                       \<Sum>j<length (generate_scoreline_probabilities h a max_goals_default ! 0).
                         if real (i + j) \<le> t
                         then generate_scoreline_probabilities h a max_goals_default ! i ! j
                         else 0)
               thresholds
         \<and> map (over_probability \<circ> snd) results =
             map (\<lambda>r. 1 - under_probability (snd r)) results
         \<and> map (\<lambda>r. under_probability (snd r) + over_probability (snd r)) results =
             [1, 1, 1, 1]"
proof -
  obtain h a where
    "calculate_goal_expectancy (snd (calculate_strengths cfg)) = Inr (h, a)"
    "over_under_results (snd (calculate_strengths cfg)) =
       Inr (calculate_over_under_probabilities
              (generate_scoreline_probabilities h a max_goals_default))"
    using configured_results [OF assms] by blast
  then show ?thesis
    using result_keys result_under result_over result_total by blast
qed

theorem over_under_complement_witness:
  "\<exists>h a results.
           calculate_goal_expectancy
             (snd (calculate_strengths (set_team_averages init 1.8 1.1 1.2 1.3 2.7))) = Inr (h, a)
         \<and> over_under_results
             (snd (calculate_strengths (set_team_averages init 1.8 1.1 1.2 1.3 2.7))) = Inr results
         \<and> map fst results = [''Under 0.5'', ''Under 1.5'', ''Under 2.5'', ''Under 3.5'']
         \<and> map (under_probability \<circ> snd) results =
             map (\<lambda>t. \<Sum>i<length (generate_scoreline_probabilities h a max_goals_default).
                       \<Sum>j<length (generate_scoreline_probabilities h a max_goals_default ! 0).
                         if real (i + j) \<le> t
                         then generate_scoreline_probabilities h a max_goals_default ! i ! j
                         else 0)
               thresholds
         \<and> map (over_probability \<circ> snd) results =
             map (\<lambda>r. 1 - under_probability (snd r)) results
         \<and> map (\<lambda>r. under_probability (snd r) + over_probability (snd r)) results =
             [1, 1, 1, 1]"
proof -
  have "(0::real) < 1.8" and "(0::real) < 1.1" and "(0::real) < 1.2" and "(0::real) < 1.3"
    by simp_all
  moreover have "set_team_averages init 1.8 1.1 1.2 1.3 2.7 =
        set_team_averages init 1.8 1.1 1.2 1.3 2.7 \<and> (0::real) < 2.7
      \<or> set_team_averages init 1.8 1.1 1.2 1.3 2.7 =
        set_team_averages_detailed init 1.8 1.1 1.2 1.3 1 1 \<and> (0::real) < 1 \<and> (0::real) < 1"
    by simp
  ultimately show ?thesis
    by (rule over_under_complement)
qed

text \<open>
  Claim C2. For expectancies \<open>lambda_home\<close>, \<open>lambda_away\<close> and every pair \<open>(i, j)\<close> with
  \<open>i, j \<le> max_goals\<close>, the cell \<open>[i][j]\<close> of the scoreline matrix is the product of the
  two Poisson probabilities, where the Poisson probability of \<open>k\<close> at \<open>lam\<close> is
  \<open>lam ^ k * exp (- lam) / k!\<close>; the matrix has \<open>max_goals + 1\<close> rows and columns, and
  the default of \<open>max_goals\<close> is 8. (Positivity of the expectancies is not needed.)
\<close>

theorem scoreline_matrix_cells:
  assumes "i \<le> max_goals" and "j \<le> max_goals"
  shows "generate_scoreline_probabilities lambda_home lambda_away max_goals ! i ! j =
           poisson_pmf i lambda_home * poisson_pmf j lambda_away
       \<and> poisson_pmf i lambda_home = lambda_home ^ i * exp (- lambda_home) / fact i
       \<and> poisson_pmf j lambda_away = lambda_away ^ j * exp (- lambda_away) / fact j
       \<and> length (generate_scoreline_probabilities lambda_home lambda_away max_goals) = max_goals + 1
       \<and> length (generate_scoreline_probabilities lambda_home lambda_away max_goals ! i) =
           max_goals + 1
       \<and> max_goals_default = 8"
  using assms
  by (simp add: generate_scoreline_probabilities_nth generate_scoreline_probabilities_length
        generate_scoreline_probabilities_row_length poisson_pmf_def max_goals_default_def)

theorem scoreline_matrix_cells_witness:
  "(1::nat) \<le> 8 \<and> (2::nat) \<le> 8
   \<and> generate_scoreline_probabilities 1 2 8 ! 1 ! 2 = poisson_pmf 1 1 * poisson_pmf 2 2
   \<and> poisson_pmf 2 2 = 2 * exp (- 2)
   \<and> length (generate_scoreline_probabilities 1 2 8) = 9"
  using scoreline_matrix_cells [of 1 8 2 1 2] by (simp add: max_goals_default_def)

subsection \<open>Strengths\<close>

text \<open>
  Claim C3. In detailed mode, with the four team averages and the two league scoring
  averages positive, \<open>calculate_strengths\<close> raises nothing and stores
  \<open>home_attack = home_goals_for / league_home_for\<close>,
  \<open>home_defense = home_goals_against / league_away_for\<close>,
  \<open>away_attack = away_goals_for / league_away_for\<close> and
  \<open>away_defense = away_goals_against / league_home_for\<close>.
\<close>

theorem detailed_strengths:
  assumes "0 < hf" and "0 < ha" and "0 < af" and "0 < aa" and "0 < lh" and "0 < la"
  shows "calculate_strengths (set_team_averages_detailed e hf ha af aa lh la) =
           (None, (set_team_averages_detailed e hf ha af aa lh la)
                     \<lparr>home_attack_strength := Some (hf / lh),
                      home_defense_strength := Some (ha / la),
                      away_attack_strength := Some (af / la),
                      away_defense_strength := Some (aa / lh)\<rparr>)"
  using assms by (simp add: calculate_strengths_def set_team_averages_detailed_def py_all_def)

theorem detailed_strengths_witness:
  "calculate_strengths (set_team_averages_detailed init 2 1 1 3 2 1) =
     (None, (set_team_averages_detailed init 2 1 1 3 2 1)
               \<lparr>home_attack_strength := Some 1,
                home_defense_strength := Some 1,
                away_attack_strength := Some 1,
                away_defense_strength := Some (3 / 2)\<rparr>)"
  using detailed_strengths [of 2 1 1 3 2 1 init] by simp

text \<open>
  Claim C4 says that a team average of 0 is accepted and gives the strength 0. The
  validation of \<open>calculate_strengths\<close> tests truth values, so an average that is set to
  0 is reported as not set: with a home scoring average of 0 the call raises and stores
  no strength.
\<close>

theorem zero_average_rejected:
  "calculate_strengths (set_team_averages init 0 1.1 1.2 1.3 2.7) =
     (Some (ValueError ''Team averages must be set before calculating strengths''),
      set_team_averages init 0 1.1 1.2 1.3 2.7)
   \<and> home_attack_strength (snd (calculate_strengths (set_team_averages init 0 1.1 1.2 1.3 2.7))) =
       None"
  by (simp add: calculate_strengths_def set_team_averages_def py_all_def init_def)

subsection \<open>Symmetry and monotonicity\<close>

text \<open>
  Claim C5 says that exchanging the two teams leaves every under- and over-probability
  unchanged. With the home averages 1 and 0.5, the away averages 1 and 1 and the league
  average 1 the expectancies are 1 and 0.5 (every quotient and product on the way is
  exact in doubles), and 0.5 and 1 with the teams exchanged. In double precision the
  probability of "Under 1.5" is 0.5578254003710745 for the first configuration and
  0.5578254003710746 for the second: the loops add the same three cells in another order.
\<close>

theorem swapped_sum_differs:
  "calculate_goal_expectancy (snd (calculate_strengths (set_team_averages init 1 (1/2) 1 1 1))) =
     Inr (1, 1/2)
   \<and> calculate_goal_expectancy (snd (calculate_strengths (set_team_averages init 1 1 1 (1/2) 1))) =
     Inr (1/2, 1)
   \<and> under_prob_loop_double
         (generate_scoreline_probabilities_double 1 (1/2) max_goals_default) (3/2) =
       2512222265248969 / 2 ^ 52
   \<and> under_prob_loop_double
         (generate_scoreline_probabilities_double (1/2) 1 max_goals_default) (3/2) =
       5024444530497939 / 2 ^ 53
   \<and> under_prob_loop_double
         (generate_scoreline_probabilities_double (1/2) 1 max_goals_default) (3/2) \<noteq>
       under_prob_loop_double
         (generate_scoreline_probabilities_double 1 (1/2) max_goals_default) (3/2)"
proof -
  have "calculate_goal_expectancy (snd (calculate_strengths (set_team_averages init 1 (1/2) 1 1 1))) =
          Inr (1, 1/2)"
    using simple_expectancy [of 1 "1/2" 1 1 1 init] by simp
  moreover have
    "calculate_goal_expectancy (snd (calculate_strengths (set_team_averages init 1 1 1 (1/2) 1))) =
          Inr (1/2, 1)"
    using simple_expectancy [of 1 1 1 "1/2" 1 init] by simp
  moreover have "(5024444530497939 / 2 ^ 53 :: real) \<noteq> 2512222265248969 / 2 ^ 52"
    by simp
  ultimately show ?thesis
    by (simp only: under_double_original under_double_swapped simp_thms)
qed

text \<open>
  Claim C5, amended. Take positive averages and a positive baseline, and the
  configuration with the two teams' averages exchanged (in detailed mode also the two
  league baselines). After \<open>calculate_strengths\<close> the goal expectancies of the second are
  those of the first exchanged, and the total expected goals of the summary are the same.
  For any two expectancies \<open>x\<close> and \<open>y\<close> the scoreline matrix for \<open>(y, x)\<close> is the
  transpose of the matrix for \<open>(x, y)\<close>, also in double precision, and each market adds
  the same cells for both, in another order: the exact sums of these cells are equal,
  the sums accumulated in double precision need not be.
\<close>

theorem home_away_symmetry:
  assumes "0 < hf" and "0 < ha" and "0 < af" and "0 < aa"
    and "cfg = set_team_averages e0 hf ha af aa l
           \<and> swapped = set_team_averages e0 af aa hf ha l \<and> 0 < l
       \<or> cfg = set_team_averages_detailed e0 hf ha af aa lh la
           \<and> swapped = set_team_averages_detailed e0 af aa hf ha la lh \<and> 0 < lh \<and> 0 < la"
    and "i \<le> max_goals_default" and "j \<le> max_goals_default"
  shows "(\<exists>h a s s'.
           calculate_goal_expectancy (snd (calculate_strengths cfg)) = Inr (h, a)
         \<and> calculate_goal_expectancy (snd (calculate_strengths swapped)) = Inr (a, h)
         \<and> get_summary_info (snd (calculate_strengths cfg)) = Inr s
         \<and> get_summary_info (snd (calculate_strengths swapped)) = Inr s'
         \<and> map_of s ''Total Expected Goals'' = Some (format_fixed2 (h + a))
         \<and> map_of s' ''Total Expected Goals'' = map_of s ''Total Expected Goals'')
       \<and> generate_scoreline_probabilities_double y x max_goals_default ! i ! j =
           generate_scoreline_probabilities_double x y max_goals_default ! j ! i
       \<and> under_prob_loop_double (generate_scoreline_probabilities_double x y max_goals_default) t =
           fold (\<lambda>prob under_prob. round_double (under_prob + prob))
             (under_cells (generate_scoreline_probabilities_double x y max_goals_default) t) 0
       \<and> under_prob_loop_double (generate_scoreline_probabilities_double y x max_goals_default) t =
           fold (\<lambda>prob under_prob. round_double (under_prob + prob))
             (under_cells (generate_scoreline_probabilities_double y x max_goals_default) t) 0
       \<and> mset (under_cells (generate_scoreline_probabilities_double y x max_goals_default) t) =
           mset (under_cells (generate_scoreline_probabilities_double x y max_goals_default) t)
       \<and> sum_list (under_cells (generate_scoreline_probabilities_double y x max_goals_default) t) =
           sum_list (under_cells (generate_scoreline_probabilities_double x y max_goals_default) t)"
proof -
  let ?e = "snd (calculate_strengths cfg)" and ?e' = "snd (calculate_strengths swapped)"
  have "\<exists>h a. calculate_goal_expectancy ?e = Inr (h, a)
           \<and> calculate_goal_expectancy ?e' = Inr (a, h)
           \<and> py_all [home_attack_strength ?e, away_attack_strength ?e]
           \<and> py_all [home_attack_strength ?e', away_attack_strength ?e']"
    using assms(5)
  proof
    assume "cfg = set_team_averages e0 hf ha af aa l
              \<and> swapped = set_team_averages e0 af aa hf ha l \<and> 0 < l"
    then show ?thesis
      using assms(1-4) by (simp add: simple_expectancy simple_attack)
  next
    assume "cfg = set_team_averages_detailed e0 hf ha af aa lh la
              \<and> swapped = set_team_averages_detailed e0 af aa hf ha la lh \<and> 0 < lh \<and> 0 < la"
    then show ?thesis
      using assms(1-4) by (simp add: detailed_expectancy detailed_attack)
  qed
  then obtain h a where ge: "calculate_goal_expectancy ?e = Inr (h, a)"
    and ge': "calculate_goal_expectancy ?e' = Inr (a, h)"
    and at: "py_all [home_attack_strength ?e, away_attack_strength ?e]"
    and at': "py_all [home_attack_strength ?e', away_attack_strength ?e']"
    by blast
  obtain s where s: "get_summary_info ?e = Inr s"
    "map_of s ''Total Expected Goals'' = Some (format_fixed2 (h + a))"
    using summary_total [OF at ge] by blast
  obtain s' where s': "get_summary_info ?e' = Inr s'"
    "map_of s' ''Total Expected Goals'' = Some (format_fixed2 (a + h))"
    using summary_total [OF at' ge'] by blast
  have "map_of s' ''Total Expected Goals'' = map_of s ''Total Expected Goals''"
    using s(2) s'(2) by (simp add: add.commute)
  then have first: "\<exists>h a s s'.
           calculate_goal_expectancy ?e = Inr (h, a)
         \<and> calculate_goal_expectancy ?e' = Inr (a, h)
         \<and> get_summary_info ?e = Inr s
         \<and> get_summary_info ?e' = Inr s'
         \<and> map_of s ''Total Expected Goals'' = Some (format_fixed2 (h + a))
         \<and> map_of s' ''Total Expected Goals'' = map_of s ''Total Expected Goals''"
    using ge ge' s s'(1) by blast
  show ?thesis
    using first assms(6,7)
    by (simp only: generate_scoreline_probabilities_double_transpose
          under_prob_loop_double_cells under_cells_mset_transpose
          under_cells_exact_sum_transpose simp_thms)
qed

theorem home_away_symmetry_witness:
  "(\<exists>h a s s'.
           calculate_goal_expectancy
             (snd (calculate_strengths (set_team_averages init 1.8 1.1 1.2 1.3 2.7))) = Inr (h, a)
         \<and> calculate_goal_expectancy
             (snd (calculate_strengths (set_team_averages init 1.2 1.3 1.8 1.1 2.7))) = Inr (a, h)
         \<and> get_summary_info
             (snd (calculate_strengths (set_team_averages init 1.8 1.1 1.2 1.3 2.7))) = Inr s
         \<and> get_summary_info
             (snd (calculate_strengths (set_team_averages init 1.2 1.3 1.8 1.1 2.7))) = Inr s'
         \<and> map_of s ''Total Expected Goals'' = Some (format_fixed2 (h + a))
         \<and> map_of s' ''Total Expected Goals'' = map_of s ''Total Expected Goals'')
       \<and> generate_scoreline_probabilities_double (1/2) 1 max_goals_default ! 0 ! 1 =
           generate_scoreline_probabilities_double 1 (1/2) max_goals_default ! 1 ! 0
       \<and> under_prob_loop_double (generate_scoreline_probabilities_double 1 (1/2) max_goals_default)
             (3/2) =
           fold (\<lambda>prob under_prob. round_double (under_prob + prob))
             (under_cells (generate_scoreline_probabilities_double 1 (1/2) max_goals_default) (3/2)) 0
       \<and> under_prob_loop_double (generate_scoreline_probabilities_double (1/2) 1 max_goals_default)
             (3/2) =
           fold (\<lambda>prob under_prob. round_double (under_prob + prob))
             (under_cells (generate_scoreline_probabilities_double (1/2) 1 max_goals_default) (3/2)) 0
       \<and> mset (under_cells (generate_scoreline_probabilities_double (1/2) 1 max_goals_default) (3/2)) =
           mset (under_cells (generate_scoreline_probabilities_double 1 (1/2) max_goals_default) (3/2))
       \<and> sum_list (under_cells (generate_scoreline_probabilities_double (1/2) 1 max_goals_default) (3/2)) =
           sum_list (under_cells (generate_scoreline_probabilities_double 1 (1/2) max_goals_default) (3/2))"
proof -
  have "(0::real) < 1.8" and "(0::real) < 1.1" and "(0::real) < 1.2" and "(0::real) < 1.3"
    by simp_all
  moreover have "set_team_averages init 1.8 1.1 1.2 1.3 2.7 =
          set_team_averages init 1.8 1.1 1.2 1.3 2.7
        \<and> set_team_averages init 1.2 1.3 1.8 1.1 2.7 =
          set_team_averages init 1.2 1.3 1.8 1.1 2.7 \<and> (0::real) < 2.7
      \<or> set_team_averages init 1.8 1.1 1.2 1.3 2.7 =
          set_team_averages_detailed init 1.8 1.1 1.2 1.3 1 1
        \<and> set_team_averages init 1.2 1.3 1.8 1.1 2.7 =
          set_team_averages_detailed init 1.2 1.3 1.8 1.1 1 1 \<and> (0::real) < 1 \<and> (0::real) < 1"
    by simp
  moreover have "(0::nat) \<le> max_goals_default" and "(1::nat) \<le> max_goals_default"
    by (simp_all add: max_goals_default_def)
  ultimately show ?thesis
    by (rule home_away_symmetry)
qed

text \<open>
  Claim C6. For an engine configured with positive averages and a positive baseline and
  with strengths computed, the under-probabilities of the markets, in the order of the
  thresholds 0.5, 1.5, 2.5, 3.5, are non-decreasing.
\<close>

theorem under_monotone:
  assumes "0 < hf" and "0 < ha" and "0 < af" and "0 < aa"
    and "cfg = set_team_averages e0 hf ha af aa l \<and> 0 < l
       \<or> cfg = set_team_averages_detailed e0 hf ha af aa lh la \<and> 0 < lh \<and> 0 < la"
  shows "\<exists>results.
           over_under_results (snd (calculate_strengths cfg)) = Inr results
         \<and> map fst results = [''Under 0.5'', ''Under 1.5'', ''Under 2.5'', ''Under 3.5'']
         \<and> sorted (map (under_probability \<circ> snd) results)"
proof -
  obtain h a where "0 < h" "0 < a"
    "over_under_results (snd (calculate_strengths cfg)) =
       Inr (calculate_over_under_probabilities
              (generate_scoreline_probabilities h a max_goals_default))"
    using configured_results [OF assms] by blast
  then show ?thesis
    using result_keys generated_under_sorted [of h a max_goals_default] by simp
qed

theorem under_monotone_witness:
  "\<exists>results.
           over_under_results
             (snd (calculate_strengths (set_team_averages_detailed init 1.8 1.1 1.2 1.3 1.5 1.2))) =
             Inr results
         \<and> map fst results = [''Under 0.5'', ''Under 1.5'', ''Under 2.5'', ''Under 3.5'']
         \<and> sorted (map (under_probability \<circ> snd) results)"
proof -
  have "(0::real) < 1.8" and "(0::real) < 1.1" and "(0::real) < 1.2" and "(0::real) < 1.3"
    by simp_all
  moreover have "set_team_averages_detailed init 1.8 1.1 1.2 1.3 1.5 1.2 =
        set_team_averages init 1.8 1.1 1.2 1.3 1 \<and> (0::real) < 1
      \<or> set_team_averages_detailed init 1.8 1.1 1.2 1.3 1.5 1.2 =
        set_team_averages_detailed init 1.8 1.1 1.2 1.3 1.5 1.2 \<and> (0::real) < 1.5 \<and> (0::real) < 1.2"
    by simp
  ultimately show ?thesis
    by (rule under_monotone)
qed

subsection \<open>Configuration from totals\<close>

text \<open>
  Claim C7. With a positive number of games on both sides, \<open>set_team_from_totals\<close>
  raises nothing and leaves the engine in the state that \<open>set_team_averages\<close> reaches
  with the averages \<open>goals_scored / games_played\<close> and \<open>goals_conceded / games_played\<close>;
  the strengths, the summary and the market table computed afterwards are therefore the
  same. The same holds for the detailed variants. The totals 20, 38, 19 give the averages
  1.90 and 0.95.
\<close>

theorem totals_equivalence:
  assumes "0 < hg" and "0 < ag"
  shows "set_team_from_totals e hg hs hc ag as ac league_avg =
           (None, set_team_averages e (real_of_int hs / real_of_int hg)
                    (real_of_int hc / real_of_int hg) (real_of_int as / real_of_int ag)
                    (real_of_int ac / real_of_int ag) league_avg)
       \<and> set_team_from_totals_detailed e hg hs hc ag as ac lh la =
           (None, set_team_averages_detailed e (real_of_int hs / real_of_int hg)
                    (real_of_int hc / real_of_int hg) (real_of_int as / real_of_int ag)
                    (real_of_int ac / real_of_int ag) lh la)
       \<and> calculate_strengths (snd (set_team_from_totals e hg hs hc ag as ac league_avg)) =
           calculate_strengths (set_team_averages e (real_of_int hs / real_of_int hg)
                    (real_of_int hc / real_of_int hg) (real_of_int as / real_of_int ag)
                    (real_of_int ac / real_of_int ag) league_avg)
       \<and> get_summary_info
             (snd (calculate_strengths (snd (set_team_from_totals e hg hs hc ag as ac league_avg)))) =
           get_summary_info
             (snd (calculate_strengths (set_team_averages e (real_of_int hs / real_of_int hg)
                    (real_of_int hc / real_of_int hg) (real_of_int as / real_of_int ag)
                    (real_of_int ac / real_of_int ag) league_avg)))
       \<and> generate_market_analysis
             (snd (calculate_strengths (snd (set_team_from_totals e hg hs hc ag as ac league_avg))))
             margin_percent =
           generate_market_analysis
             (snd (calculate_strengths (set_team_averages e (real_of_int hs / real_of_int hg)
                    (real_of_int hc / real_of_int hg) (real_of_int as / real_of_int ag)
                    (real_of_int ac / real_of_int ag) league_avg)))
             margin_percent"
proof -
  have "set_team_from_totals e hg hs hc ag as ac league_avg =
           (None, set_team_averages e (real_of_int hs / real_of_int hg)
                    (real_of_int hc / real_of_int hg) (real_of_int as / real_of_int ag)
                    (real_of_int ac / real_of_int ag) league_avg)"
    using assms by (simp add: set_team_from_totals_def set_team_averages_def Let_def)
  moreover have "set_team_from_totals_detailed e hg hs hc ag as ac lh la =
           (None, set_team_averages_detailed e (real_of_int hs / real_of_int hg)
                    (real_of_int hc / real_of_int hg) (real_of_int as / real_of_int ag)
                    (real_of_int ac / real_of_int ag) lh la)"
    using assms
    by (simp add: set_team_from_totals_detailed_def set_team_averages_detailed_def Let_def)
  ultimately show ?thesis by simp
qed

theorem totals_equivalence_witness:
  "(0::int) < 20
   \<and> set_team_from_totals init 20 38 19 20 38 19 2.7 =
       (None, set_team_averages init 1.90 0.95 1.90 0.95 2.7)
   \<and> generate_market_analysis
         (snd (calculate_strengths (snd (set_team_from_totals init 20 38 19 20 38 19 2.7)))) 3 =
       generate_market_analysis
         (snd (calculate_strengths (set_team_averages init 1.90 0.95 1.90 0.95 2.7))) 3"
proof -
  have "real_of_int 38 / real_of_int 20 = 1.90" and "real_of_int 19 / real_of_int 20 = 0.95"
    by simp_all
  then show ?thesis
    using totals_equivalence [of 20 20 init 38 19 38 19 "2.7" 1 1 3] by simp
qed

subsection \<open>Sequencing\<close>

text \<open>
  Claim C8. On an engine whose strengths were never computed (the attack strength is
  still \<open>None\<close>, as \<open>__init__\<close> leaves it) and that one of the four configuration
  methods has just configured, \<open>generate_market_analysis\<close> returns no table: it raises
  the error whose message names the missing step.
\<close>

theorem markets_before_strengths:
  assumes "home_attack_strength e0 = None"
    and "e = set_team_averages e0 hf ha af aa l
       \<or> e = set_team_averages_detailed e0 hf ha af aa lh la
       \<or> e = snd (set_team_from_totals e0 hg hs hc ag as ac l)
       \<or> e = snd (set_team_from_totals_detailed e0 hg hs hc ag as ac lh la)"
  shows "generate_market_analysis e margin_percent =
           Inl (ValueError ''Strengths must be calculated before generating market analysis'')"
proof -
  have "home_attack_strength e = None"
    using assms
    by (auto simp: set_team_averages_def set_team_averages_detailed_def
          set_team_from_totals_def set_team_from_totals_detailed_def Let_def)
  then show ?thesis
    by (simp add: generate_market_analysis_def over_under_results_def py_all_def)
qed

theorem markets_before_strengths_witness:
  "home_attack_strength init = None
   \<and> generate_market_analysis (set_team_averages init 1.8 1.1 1.2 1.3 2.7) 3 =
       Inl (ValueError ''Strengths must be calculated before generating market analysis'')"
proof -
  have h: "home_attack_strength init = None"
    by (simp add: init_def)
  show ?thesis
    using h markets_before_strengths [OF h, of "set_team_averages init 1.8 1.1 1.2 1.3 2.7"
        "1.8" "1.1" "1.2" "1.3" "2.7"]
    by simp
qed

subsection \<open>Fair odds\<close>

text \<open>
  Claim C9 says that fair odds are infinite also when the under-probability rounds to
  0.00%. With all four averages and the league average equal to 6 both expectancies are
  6 and the under-probability of "Under 0.5" is \<open>exp (- 12)\<close>: the table prints the
  probability as 0.00%, and the fair odds are the finite \<open>1 / exp (- 12)\<close>, not \<open>inf\<close>.
\<close>

theorem rounds_to_zero_finite_odds:
  "\<not> isl (generate_market_analysis
            (snd (calculate_strengths (set_team_averages init 6 6 6 6 6))) 3)
   \<and> Market (hd (projr (generate_market_analysis
            (snd (calculate_strengths (set_team_averages init 6 6 6 6 6))) 3))) = ''Under 0.5''
   \<and> Probability (hd (projr (generate_market_analysis
            (snd (calculate_strengths (set_team_averages init 6 6 6 6 6))) 3))) = ''0.00%''
   \<and> Fair_Odds (hd (projr (generate_market_analysis
            (snd (calculate_strengths (set_team_averages init 6 6 6 6 6))) 3))) \<noteq> ''inf''
   \<and> under_odds (snd (hd (projr (over_under_results
            (snd (calculate_strengths (set_team_averages init 6 6 6 6 6))))))) =
       Fin (1 / (exp (- 6) * exp (- 6)))"
proof -
  let ?e = "snd (calculate_strengths (set_team_averages init 6 6 6 6 6))"
  let ?m = "generate_scoreline_probabilities 6 6 max_goals_default"
  have ge: "calculate_goal_expectancy ?e = Inr (6, 6)"
    using simple_expectancy [of 6 6 6 6 6 init] by simp
  have at: "py_all [home_attack_strength ?e, away_attack_strength ?e]"
    by (rule simple_attack) simp_all
  have r: "over_under_results ?e = Inr (calculate_over_under_probabilities ?m)"
    using at ge by (rule over_under_results_ok)
  have u: "under_prob_loop ?m (1/2) = exp (- 6) * exp (- 6)"
    by (simp add: under_half_generated poisson_pmf_def)
  have p: "format_2pct (exp (- 6) * exp (- (6::real))) = ''0.00%''"
    using tiny_under_probability by (simp add: format_2pct_def format_fixed2_small)
  have h: "hd (calculate_over_under_probabilities ?m) =
             (''Under 0.5'',
              \<lparr>under_probability = exp (- 6) * exp (- 6),
               over_probability = 1 - exp (- 6) * exp (- 6),
               under_odds = Fin (1 / (exp (- 6) * exp (- 6))),
               over_odds = (if 1 - exp (- 6) * exp (- 6) > (0::real)
                            then Fin (1 / (1 - exp (- 6) * exp (- 6))) else PosInf)\<rparr>)"
    using tiny_under_probability(1)
    by (simp add: calculate_over_under_probabilities_unfold thresholds_def float_str_def u)
  have ne: "calculate_over_under_probabilities ?m \<noteq> []"
    by (simp add: calculate_over_under_probabilities_unfold thresholds_def)
  show ?thesis
    using ne by (simp add: generate_market_analysis_def r hd_map h p format_fixed2_not_inf)
qed

text \<open>
  Claim C9, amended. In every entry of the market dict, for any matrix, the fair odds of
  a positive probability are 1 / probability, and the fair odds of a probability that is
  not positive (zero) are positive infinity, printed as \<open>inf\<close>; no division is attempted
  there. A positive probability that rounds to 0.00% keeps its finite odds.
\<close>

theorem fair_odds:
  assumes "(k, r) \<in> set (calculate_over_under_probabilities m)"
  shows "under_odds r = (if under_probability r > 0 then Fin (1 / under_probability r) else PosInf)
       \<and> over_odds r = (if over_probability r > 0 then Fin (1 / over_probability r) else PosInf)
       \<and> format_2f PosInf = ''inf''"
  using assms by (auto simp: calculate_over_under_probabilities_unfold)

theorem fair_odds_witness:
  "(''Under 0.5'', \<lparr>under_probability = 0, over_probability = 1, under_odds = PosInf,
                     over_odds = Fin 1\<rparr>) \<in> set (calculate_over_under_probabilities [[0]])
   \<and> (''Under 1.5'', \<lparr>under_probability = 1/4, over_probability = 3/4, under_odds = Fin 4,
                     over_odds = Fin (4/3)\<rparr>) \<in> set (calculate_over_under_probabilities [[1/4]])"
proof -
  have a: "(''Under 0.5'', \<lparr>under_probability = 0, over_probability = 1, under_odds = PosInf,
                     over_odds = Fin 1\<rparr>) \<in> set (calculate_over_under_probabilities [[0]])"
    by (simp add: calculate_over_under_probabilities_unfold thresholds_def float_str_def
          under_prob_loop_def)
  have b: "(''Under 1.5'', \<lparr>under_probability = 1/4, over_probability = 3/4, under_odds = Fin 4,
                     over_odds = Fin (4/3)\<rparr>) \<in> set (calculate_over_under_probabilities [[1/4]])"
    by (simp add: calculate_over_under_probabilities_unfold thresholds_def float_str_def
          under_prob_loop_def)
  show ?thesis
    using a b fair_odds [OF a] fair_odds [OF b] by simp
qed

subsection \<open>Errors during configuration\<close>

text \<open>
  Claim C10. With \<open>home_games > 0\<close> and \<open>away_games = 0\<close>, both methods that take totals
  end with \<open>ZeroDivisionError\<close> in a state where the two home averages hold the new
  values and every other field, the away averages among them, is as before the call.
\<close>

theorem totals_not_atomic:
  assumes "0 < home_games" and "away_games = 0"
  shows "set_team_from_totals e home_games hs hc away_games as ac league_avg =
           (Some ZeroDivisionError,
            e\<lparr>home_avg_goals_for := Some (real_of_int hs / real_of_int home_games),
              home_avg_goals_against := Some (real_of_int hc / real_of_int home_games)\<rparr>)
       \<and> set_team_from_totals_detailed e home_games hs hc away_games as ac lh la =
           (Some ZeroDivisionError,
            e\<lparr>home_avg_goals_for := Some (real_of_int hs / real_of_int home_games),
              home_avg_goals_against := Some (real_of_int hc / real_of_int home_games)\<rparr>)
       \<and> away_avg_goals_for
             (snd (set_team_from_totals e home_games hs hc away_games as ac league_avg)) =
           away_avg_goals_for e
       \<and> away_avg_goals_against
             (snd (set_team_from_totals e home_games hs hc away_games as ac league_avg)) =
           away_avg_goals_against e
       \<and> away_avg_goals_for
             (snd (set_team_from_totals_detailed e home_games hs hc away_games as ac lh la)) =
           away_avg_goals_for e
       \<and> away_avg_goals_against
             (snd (set_team_from_totals_detailed e home_games hs hc away_games as ac lh la)) =
           away_avg_goals_against e"
  using assms by (simp add: set_team_from_totals_def set_team_from_totals_detailed_def Let_def)

theorem totals_not_atomic_witness:
  "(0::int) < 20
   \<and> set_team_from_totals (set_team_averages init 1 2 3 4 5) 20 38 19 0 7 9 2.7 =
       (Some ZeroDivisionError,
        (set_team_averages init 1 2 3 4 5)
          \<lparr>home_avg_goals_for := Some 1.9, home_avg_goals_against := Some 0.95\<rparr>)
   \<and> away_avg_goals_for
         (snd (set_team_from_totals (set_team_averages init 1 2 3 4 5) 20 38 19 0 7 9 2.7)) =
       Some 3
   \<and> away_avg_goals_against
         (snd (set_team_from_totals_detailed (set_team_averages init 1 2 3 4 5)
                 20 38 19 0 7 9 1.5 1.2)) =
       Some 4"
proof -
  have "real_of_int 38 / real_of_int 20 = 1.9" and "real_of_int 19 / real_of_int 20 = 0.95"
    by simp_all
  then show ?thesis
    using totals_not_atomic [of 20 0 "set_team_averages init 1 2 3 4 5" 38 19 7 9 "2.7" "1.5" "1.2"]
    by (simp add: set_team_averages_def)
qed

end
